theory Spec2Isabelle
  imports Main "HOL-Library.Word" "HOL-Library.Signed_Division"
begin

unbundle bit_operations_syntax

section \<open>The translator's data (target/riscv/translate.c)\<close>

text \<open>
  The register width \<open>TARGET_LONG_BITS\<close> is the length of the word type \<open>'a\<close>:
  \<open>target_ulong\<close> is \<open>'a word\<close>, so one development covers the 32-bit and the 64-bit
  build of the file. The records and datatypes below take the type \<open>'w\<close> of a
  register-width value as their parameter; every function uses them at \<open>'a word\<close>.
\<close>

text \<open>
  Handles of TCG values (\<open>TCGv\<close>). The globals of the file are \<open>cpu_gpr[1..31]\<close>,
  \<open>cpu_pc\<close>, \<open>load_res\<close> and \<open>load_val\<close>; \<open>cpu_gpr[0]\<close> is \<open>NULL\<close>
  (\<open>riscv_translate_init\<close>). Temporaries are numbered in the order of their allocation.
\<close>

datatype tcgv = TCGv_NULL | TCGv_gpr int | TCGv_pc | TCGv_load_res | TCGv_load_val | TCGv_temp nat

text \<open>
  \<open>cpu_gpr[i]\<close> as \<open>riscv_translate_init\<close> fills it: \<open>NULL\<close> at index 0, the global
  of \<open>env->gpr[i]\<close> for \<open>1 \<le> i < 32\<close>. An index outside the array is undefined behaviour in
  C; here it yields the invalid handle as well, which no operation accepts.
\<close>

definition cpu_gpr :: "int \<Rightarrow> tcgv" where
  "cpu_gpr i = (if 1 \<le> i \<and> i < 32 then TCGv_gpr i else TCGv_NULL)"

definition cpu_pc :: tcgv where
  "cpu_pc = TCGv_pc"

datatype DisasJumpType = DISAS_NEXT | DISAS_TOO_MANY | DISAS_NORETURN

text \<open>
  The exception codes the file names. Their numeric values are declared outside this
  file (cpu_bits.h, cpu-all.h), so they are kept symbolic; the higher-privilege
  environment calls are listed because the file's comment distinguishes them from
  \<open>RISCV_EXCP_U_ECALL\<close>.
\<close>

datatype excp =
    RISCV_EXCP_INST_ADDR_MIS
  | RISCV_EXCP_ILLEGAL_INST
  | RISCV_EXCP_BREAKPOINT
  | RISCV_EXCP_U_ECALL
  | RISCV_EXCP_S_ECALL
  | RISCV_EXCP_H_ECALL
  | RISCV_EXCP_M_ECALL
  | EXCP_DEBUG

datatype riscv_ext = RVC | RVF | RVD

datatype tcg_cond = TCG_COND_EQ | TCG_COND_NE

record 'w TranslationBlock =
  tb_pc :: "'w"
  tb_flags :: "32 word"

text \<open>
  The IR operations the file emits, one constructor for each \<open>tcg_gen_*\<close> call it makes.
  A helper call carries its constant argument: the file always builds it with
  \<open>tcg_const_i32\<close> immediately before the call and frees it immediately after.
  \<open>Op_st_badaddr v\<close> is \<open>tcg_gen_st_tl(v, cpu_env, offsetof(CPURISCVState, badaddr))\<close>.
\<close>

datatype 'w tcg_op =
    Op_movi tcgv "'w"
  | Op_mov tcgv tcgv
  | Op_st_badaddr tcgv
  | Op_raise_exception excp
  | Op_set_rounding_mode int
  | Op_goto_tb int
  | Op_exit_tb "'w TranslationBlock option" int
  | Op_lookup_and_goto_ptr
  | Op_insn_start "'w"
  | Op_mulu2 tcgv tcgv tcgv tcgv
  | Op_sari tcgv tcgv nat
  | Op_and tcgv tcgv tcgv
  | Op_or tcgv tcgv tcgv
  | Op_sub tcgv tcgv tcgv
  | Op_setcondi tcg_cond tcgv tcgv "'w"
  | Op_movcond tcg_cond tcgv tcgv tcgv tcgv tcgv
  | Op_div tcgv tcgv tcgv
  | Op_divu tcgv tcgv tcgv
  | Op_rem tcgv tcgv tcgv
  | Op_remu tcgv tcgv tcgv

text \<open>
  \<open>CPURISCVState\<close>: the fields this file reads or writes. \<open>misa\<close> is the set of
  extensions \<open>riscv_has_ext\<close> tests.
\<close>

record 'w CPURISCVState =
  gpr :: "int \<Rightarrow> 'w"
  pc :: "'w"
  badaddr :: "'w"
  load_res :: "'w"
  load_val :: "'w"
  misa :: "riscv_ext set"

definition riscv_has_ext :: "('w, 'b) CPURISCVState_scheme \<Rightarrow> riscv_ext \<Rightarrow> bool" where
  "riscv_has_ext env ext = (ext \<in> misa env)"

record 'w DisasContextBase =
  tb :: "'w TranslationBlock"
  pc_first :: "'w"
  pc_next :: "'w"
  is_jmp :: DisasJumpType
  num_insns :: int
  singlestep_enabled :: bool

record 'w DisasContext = "'w DisasContextBase" +
  pc_succ_insn :: "'w"
  opcode :: "32 word"
  flags :: "32 word"
  mem_idx :: "32 word"
  frm :: int
  env :: "'w CPURISCVState"

text \<open>
  The state of one translation: the \<open>DisasContext\<close> together with TCG's global
  emission context, that is the operations emitted so far (in order) and the number
  of temporaries allocated.
\<close>

record 'w translation = "'w DisasContext" +
  ops :: "'w tcg_op list"
  nb_temps :: nat

section \<open>Executing the emitted IR\<close>

text \<open>
  The state the generated code runs on: the CPU state and the values of the TCG
  temporaries. \<open>rounding_mode\<close> is the mode last installed in \<open>env->fp_status\<close>.
\<close>

record 'w tcg_state = "'w CPURISCVState" +
  temps :: "nat \<Rightarrow> 'w"
  rounding_mode :: int

text \<open>
  How a run of operations ends: it reaches the end of the list (\<open>Continue\<close>), a helper
  raises a guest exception and leaves the generated code (\<open>Exception\<close>), the block
  exits (\<open>ExitTB\<close>, \<open>GotoPtr\<close>), or the host faults (\<open>HostFault\<close>: an invalid handle,
  a host division by zero or a host division overflow).
\<close>

datatype 'w exec_result =
    Continue "'w tcg_state"
  | Exception excp "'w tcg_state"
  | ExitTB "'w TranslationBlock option" int "'w tcg_state"
  | GotoPtr "'w tcg_state"
  | HostFault

fun tcg_read :: "tcgv \<Rightarrow> 'a word tcg_state \<Rightarrow> 'a word option" where
  "tcg_read TCGv_NULL s = None"
| "tcg_read (TCGv_gpr i) s = (if 1 \<le> i \<and> i < 32 then Some (gpr s i) else None)"
| "tcg_read TCGv_pc s = Some (pc s)"
| "tcg_read TCGv_load_res s = Some (load_res s)"
| "tcg_read TCGv_load_val s = Some (load_val s)"
| "tcg_read (TCGv_temp n) s = Some (temps s n)"

fun tcg_write :: "tcgv \<Rightarrow> 'a word \<Rightarrow> 'a word tcg_state \<Rightarrow> 'a word exec_result" where
  "tcg_write TCGv_NULL x s = HostFault"
| "tcg_write (TCGv_gpr i) x s =
     (if 1 \<le> i \<and> i < 32 then Continue (s\<lparr>gpr := (gpr s)(i := x)\<rparr>) else HostFault)"
| "tcg_write TCGv_pc x s = Continue (s\<lparr>pc := x\<rparr>)"
| "tcg_write TCGv_load_res x s = Continue (s\<lparr>load_res := x\<rparr>)"
| "tcg_write TCGv_load_val x s = Continue (s\<lparr>load_val := x\<rparr>)"
| "tcg_write (TCGv_temp n) x s = Continue (s\<lparr>temps := (temps s)(n := x)\<rparr>)"

definition eval_cond :: "tcg_cond \<Rightarrow> 'a word \<Rightarrow> 'a word \<Rightarrow> bool" where
  "eval_cond c x y = (case c of TCG_COND_EQ \<Rightarrow> x = y | TCG_COND_NE \<Rightarrow> x \<noteq> y)"

text \<open>The most negative value, \<open>1 << (TARGET_LONG_BITS - 1)\<close>.\<close>

definition min_signed :: "'a::len word" where
  "min_signed = push_bit (LENGTH('a) - 1) 1"

text \<open>
  Modelled from the spec: the IR emission backend (tcg/tcg-op.c and the runtime helpers)
  is not in this file. Each operation has the meaning of TCG's documentation: moves,
  wrapping arithmetic, \<open>setcond\<close> giving 1 or 0, \<open>movcond d, c1, c2, v1, v2\<close> giving
  \<open>v1\<close> when the condition holds of \<open>c1\<close> and \<open>c2\<close> and \<open>v2\<close> otherwise, \<open>mulu2\<close> giving
  the low and the high half of the unsigned double-width product, \<open>sari\<close> the arithmetic
  right shift. The four divisions are the host's: truncating on signed operands, and
  undefined (a host fault here) on a zero divisor and on the signed overflow.
  \<open>goto_tb\<close> and \<open>insn_start\<close> change no guest state.
\<close>

definition with_val ::
  "tcgv \<Rightarrow> 'a word tcg_state \<Rightarrow> ('a word \<Rightarrow> 'a word exec_result) \<Rightarrow> 'a word exec_result" where
  "with_val a s k = (case tcg_read a s of None \<Rightarrow> HostFault | Some x \<Rightarrow> k x)"

definition and_then ::
  "'a word exec_result \<Rightarrow> ('a word tcg_state \<Rightarrow> 'a word exec_result) \<Rightarrow> 'a word exec_result" where
  "and_then r k = (case r of Continue s \<Rightarrow> k s | _ \<Rightarrow> r)"

definition binop ::
  "('a word \<Rightarrow> 'a word \<Rightarrow> 'a word) \<Rightarrow> tcgv \<Rightarrow> tcgv \<Rightarrow> tcgv \<Rightarrow> 'a word tcg_state \<Rightarrow> 'a word exec_result" where
  "binop f d a b s = with_val a s (\<lambda>x. with_val b s (\<lambda>y. tcg_write d (f x y) s))"

fun exec_op :: "'a::len word tcg_op \<Rightarrow> 'a word tcg_state \<Rightarrow> 'a word exec_result" where
  "exec_op (Op_movi d c) s = tcg_write d c s"
| "exec_op (Op_mov d a) s = with_val a s (\<lambda>x. tcg_write d x s)"
| "exec_op (Op_st_badaddr a) s = with_val a s (\<lambda>x. Continue (s\<lparr>badaddr := x\<rparr>))"
| "exec_op (Op_raise_exception e) s = Exception e s"
| "exec_op (Op_set_rounding_mode rm) s = Continue (s\<lparr>rounding_mode := rm\<rparr>)"
| "exec_op (Op_goto_tb n) s = Continue s"
| "exec_op (Op_exit_tb t n) s = ExitTB t n s"
| "exec_op Op_lookup_and_goto_ptr s = GotoPtr s"
| "exec_op (Op_insn_start a) s = Continue s"
| "exec_op (Op_mulu2 rl rh a b) s =
     with_val a s (\<lambda>x. with_val b s (\<lambda>y.
       and_then (tcg_write rl (word_of_int (uint x * uint y)) s)
         (tcg_write rh (word_of_int ((uint x * uint y) div 2 ^ LENGTH('a))))))"
| "exec_op (Op_sari d a n) s = with_val a s (\<lambda>x. tcg_write d (signed_drop_bit n x) s)"
| "exec_op (Op_and d a b) s = binop (\<lambda>x y. x AND y) d a b s"
| "exec_op (Op_or d a b) s = binop (\<lambda>x y. x OR y) d a b s"
| "exec_op (Op_sub d a b) s = binop (\<lambda>x y. x - y) d a b s"
| "exec_op (Op_setcondi c d a k) s =
     with_val a s (\<lambda>x. tcg_write d (if eval_cond c x k then 1 else 0) s)"
| "exec_op (Op_movcond c d c1 c2 v1 v2) s =
     with_val c1 s (\<lambda>x. with_val c2 s (\<lambda>y. with_val v1 s (\<lambda>p. with_val v2 s (\<lambda>q.
       tcg_write d (if eval_cond c x y then p else q) s))))"
| "exec_op (Op_div d a b) s =
     with_val a s (\<lambda>x. with_val b s (\<lambda>y.
       if y = 0 \<or> (x = min_signed \<and> y = - 1) then HostFault
       else tcg_write d (word_of_int (sint x sdiv sint y)) s))"
| "exec_op (Op_divu d a b) s =
     with_val a s (\<lambda>x. with_val b s (\<lambda>y.
       if y = 0 then HostFault else tcg_write d (x div y) s))"
| "exec_op (Op_rem d a b) s =
     with_val a s (\<lambda>x. with_val b s (\<lambda>y.
       if y = 0 \<or> (x = min_signed \<and> y = - 1) then HostFault
       else tcg_write d (word_of_int (sint x smod sint y)) s))"
| "exec_op (Op_remu d a b) s =
     with_val a s (\<lambda>x. with_val b s (\<lambda>y.
       if y = 0 then HostFault else tcg_write d (x mod y) s))"

fun exec_ops :: "'a::len word tcg_op list \<Rightarrow> 'a word tcg_state \<Rightarrow> 'a word exec_result" where
  "exec_ops [] s = Continue s"
| "exec_ops (x # xs) s = and_then (exec_op x s) (exec_ops xs)"

section \<open>Emission primitives\<close>

definition emit :: "'a word tcg_op \<Rightarrow> 'a word translation \<Rightarrow> 'a word translation" where
  "emit x s = s\<lparr>ops := ops s @ [x]\<rparr>"

text \<open>The operations a generator \<open>f\<close> appends when it runs from \<open>s\<close>.\<close>

definition emitted :: "('a word translation \<Rightarrow> 'a word translation) \<Rightarrow> 'a word translation \<Rightarrow> 'a word tcg_op list" where
  "emitted f s = drop (length (ops s)) (ops (f s))"

text \<open>
  A new temporary takes the next number. Freeing one emits nothing, and its number is
  not given out again.
\<close>

definition tcg_temp_new :: "'a word translation \<Rightarrow> tcgv \<times> 'a word translation" where
  "tcg_temp_new s = (TCGv_temp (nb_temps s), s\<lparr>nb_temps := Suc (nb_temps s)\<rparr>)"

definition tcg_temp_free :: "tcgv \<Rightarrow> 'a word translation \<Rightarrow> 'a word translation" where
  "tcg_temp_free t s = s"

definition tcg_gen_movi_tl :: "tcgv \<Rightarrow> 'a word \<Rightarrow> 'a word translation \<Rightarrow> 'a word translation" where
  "tcg_gen_movi_tl d c = emit (Op_movi d c)"

definition tcg_gen_mov_tl :: "tcgv \<Rightarrow> tcgv \<Rightarrow> 'a word translation \<Rightarrow> 'a word translation" where
  "tcg_gen_mov_tl d a = emit (Op_mov d a)"

definition tcg_const_tl :: "'a word \<Rightarrow> 'a word translation \<Rightarrow> tcgv \<times> 'a word translation" where
  "tcg_const_tl c s = (let (t, s) = tcg_temp_new s in (t, tcg_gen_movi_tl t c s))"

definition tcg_gen_st_tl_badaddr :: "tcgv \<Rightarrow> 'a word translation \<Rightarrow> 'a word translation" where
  "tcg_gen_st_tl_badaddr v = emit (Op_st_badaddr v)"

definition gen_helper_raise_exception :: "excp \<Rightarrow> 'a word translation \<Rightarrow> 'a word translation" where
  "gen_helper_raise_exception e = emit (Op_raise_exception e)"

definition gen_helper_set_rounding_mode :: "int \<Rightarrow> 'a word translation \<Rightarrow> 'a word translation" where
  "gen_helper_set_rounding_mode rm = emit (Op_set_rounding_mode rm)"

definition tcg_gen_goto_tb :: "int \<Rightarrow> 'a word translation \<Rightarrow> 'a word translation" where
  "tcg_gen_goto_tb n = emit (Op_goto_tb n)"

definition tcg_gen_exit_tb ::
  "'a word TranslationBlock option \<Rightarrow> int \<Rightarrow> 'a word translation \<Rightarrow> 'a word translation" where
  "tcg_gen_exit_tb t n = emit (Op_exit_tb t n)"

definition tcg_gen_lookup_and_goto_ptr :: "'a word translation \<Rightarrow> 'a word translation" where
  "tcg_gen_lookup_and_goto_ptr = emit Op_lookup_and_goto_ptr"

definition tcg_gen_insn_start :: "'a word \<Rightarrow> 'a word translation \<Rightarrow> 'a word translation" where
  "tcg_gen_insn_start a = emit (Op_insn_start a)"

definition tcg_gen_mulu2_tl ::
  "tcgv \<Rightarrow> tcgv \<Rightarrow> tcgv \<Rightarrow> tcgv \<Rightarrow> 'a word translation \<Rightarrow> 'a word translation" where
  "tcg_gen_mulu2_tl rl rh a b = emit (Op_mulu2 rl rh a b)"

definition tcg_gen_sari_tl :: "tcgv \<Rightarrow> tcgv \<Rightarrow> nat \<Rightarrow> 'a word translation \<Rightarrow> 'a word translation" where
  "tcg_gen_sari_tl d a n = emit (Op_sari d a n)"

definition tcg_gen_and_tl :: "tcgv \<Rightarrow> tcgv \<Rightarrow> tcgv \<Rightarrow> 'a word translation \<Rightarrow> 'a word translation" where
  "tcg_gen_and_tl d a b = emit (Op_and d a b)"

definition tcg_gen_or_tl :: "tcgv \<Rightarrow> tcgv \<Rightarrow> tcgv \<Rightarrow> 'a word translation \<Rightarrow> 'a word translation" where
  "tcg_gen_or_tl d a b = emit (Op_or d a b)"

definition tcg_gen_sub_tl :: "tcgv \<Rightarrow> tcgv \<Rightarrow> tcgv \<Rightarrow> 'a word translation \<Rightarrow> 'a word translation" where
  "tcg_gen_sub_tl d a b = emit (Op_sub d a b)"

definition tcg_gen_setcondi_tl ::
  "tcg_cond \<Rightarrow> tcgv \<Rightarrow> tcgv \<Rightarrow> 'a word \<Rightarrow> 'a word translation \<Rightarrow> 'a word translation" where
  "tcg_gen_setcondi_tl c d a k = emit (Op_setcondi c d a k)"

definition tcg_gen_movcond_tl ::
  "tcg_cond \<Rightarrow> tcgv \<Rightarrow> tcgv \<Rightarrow> tcgv \<Rightarrow> tcgv \<Rightarrow> tcgv \<Rightarrow> 'a word translation \<Rightarrow> 'a word translation" where
  "tcg_gen_movcond_tl c d c1 c2 v1 v2 = emit (Op_movcond c d c1 c2 v1 v2)"

definition tcg_gen_div_tl :: "tcgv \<Rightarrow> tcgv \<Rightarrow> tcgv \<Rightarrow> 'a word translation \<Rightarrow> 'a word translation" where
  "tcg_gen_div_tl d a b = emit (Op_div d a b)"

definition tcg_gen_divu_tl :: "tcgv \<Rightarrow> tcgv \<Rightarrow> tcgv \<Rightarrow> 'a word translation \<Rightarrow> 'a word translation" where
  "tcg_gen_divu_tl d a b = emit (Op_divu d a b)"

definition tcg_gen_rem_tl :: "tcgv \<Rightarrow> tcgv \<Rightarrow> tcgv \<Rightarrow> 'a word translation \<Rightarrow> 'a word translation" where
  "tcg_gen_rem_tl d a b = emit (Op_rem d a b)"

definition tcg_gen_remu_tl :: "tcgv \<Rightarrow> tcgv \<Rightarrow> tcgv \<Rightarrow> 'a word translation \<Rightarrow> 'a word translation" where
  "tcg_gen_remu_tl d a b = emit (Op_remu d a b)"

section \<open>Register access\<close>

definition gen_get_gpr :: "tcgv \<Rightarrow> int \<Rightarrow> 'a::len word translation \<Rightarrow> 'a word translation" where
  "gen_get_gpr t reg_num s =
     (if reg_num = 0 then tcg_gen_movi_tl t 0 s
      else tcg_gen_mov_tl t (cpu_gpr reg_num) s)"

definition gen_set_gpr :: "int \<Rightarrow> tcgv \<Rightarrow> 'a::len word translation \<Rightarrow> 'a word translation" where
  "gen_set_gpr reg_num_dst t s =
     (if reg_num_dst \<noteq> 0 then tcg_gen_mov_tl (cpu_gpr reg_num_dst) t s else s)"

section \<open>Raising exceptions\<close>

definition generate_exception :: "excp \<Rightarrow> 'a::len word translation \<Rightarrow> 'a word translation" where
  "generate_exception excp ctx =
     (let ctx = tcg_gen_movi_tl cpu_pc (pc_next ctx) ctx;
          ctx = gen_helper_raise_exception excp ctx
      in ctx\<lparr>is_jmp := DISAS_NORETURN\<rparr>)"

definition generate_exception_mbadaddr :: "excp \<Rightarrow> 'a::len word translation \<Rightarrow> 'a word translation" where
  "generate_exception_mbadaddr excp ctx =
     (let ctx = tcg_gen_movi_tl cpu_pc (pc_next ctx) ctx;
          ctx = tcg_gen_st_tl_badaddr cpu_pc ctx;
          ctx = gen_helper_raise_exception excp ctx
      in ctx\<lparr>is_jmp := DISAS_NORETURN\<rparr>)"

definition gen_exception_debug :: "'a::len word translation \<Rightarrow> 'a word translation" where
  "gen_exception_debug = gen_helper_raise_exception EXCP_DEBUG"

definition gen_exception_illegal :: "'a::len word translation \<Rightarrow> 'a word translation" where
  "gen_exception_illegal ctx = generate_exception RISCV_EXCP_ILLEGAL_INST ctx"

definition gen_exception_inst_addr_mis :: "'a::len word translation \<Rightarrow> 'a word translation" where
  "gen_exception_inst_addr_mis ctx = generate_exception_mbadaddr RISCV_EXCP_INST_ADDR_MIS ctx"

section \<open>Leaving the block\<close>

text \<open>
  \<open>TARGET_PAGE_BITS\<close> is declared in target/riscv/cpu.h (12, for 4 KiB pages), and
  \<open>TARGET_PAGE_SIZE\<close> and \<open>TARGET_PAGE_MASK\<close> are derived from it in cpu-all.h as
  \<open>1 << TARGET_PAGE_BITS\<close> and \<open>~(TARGET_PAGE_SIZE - 1)\<close>.
\<close>

definition TARGET_PAGE_BITS :: nat where
  "TARGET_PAGE_BITS = 12"

definition TARGET_PAGE_SIZE :: "'a::len word" where
  "TARGET_PAGE_SIZE = push_bit TARGET_PAGE_BITS 1"

definition TARGET_PAGE_MASK :: "'a::len word" where
  "TARGET_PAGE_MASK = NOT (TARGET_PAGE_SIZE - 1)"

text \<open>
  \<open>user_only\<close> is the build option \<open>CONFIG_USER_ONLY\<close>, which selects the second
  \<open>return\<close> of \<open>use_goto_tb\<close>.
\<close>

definition use_goto_tb :: "bool \<Rightarrow> 'a::len word translation \<Rightarrow> 'a word \<Rightarrow> bool" where
  "use_goto_tb user_only ctx dest =
     (if singlestep_enabled ctx then False
      else if \<not> user_only
        then (tb_pc (tb ctx) AND TARGET_PAGE_MASK) = (dest AND TARGET_PAGE_MASK)
        else True)"

definition gen_goto_tb ::
  "bool \<Rightarrow> int \<Rightarrow> 'a word \<Rightarrow> 'a::len word translation \<Rightarrow> 'a word translation" where
  "gen_goto_tb user_only n dest ctx =
     (if use_goto_tb user_only ctx dest then
        (let ctx = tcg_gen_goto_tb n ctx;
             ctx = tcg_gen_movi_tl cpu_pc dest ctx
         in tcg_gen_exit_tb (Some (tb ctx)) n ctx)
      else
        (let ctx = tcg_gen_movi_tl cpu_pc dest ctx
         in if singlestep_enabled ctx then gen_exception_debug ctx
            else tcg_gen_lookup_and_goto_ptr ctx))"

section \<open>Arithmetic generators\<close>

definition gen_mulhsu :: "tcgv \<Rightarrow> tcgv \<Rightarrow> tcgv \<Rightarrow> 'a::len word translation \<Rightarrow> 'a word translation" where
  "gen_mulhsu ret arg1 arg2 ctx =
     (let (rl, ctx) = tcg_temp_new ctx;
          (rh, ctx) = tcg_temp_new ctx;
          ctx = tcg_gen_mulu2_tl rl rh arg1 arg2 ctx;
          ctx = tcg_gen_sari_tl rl arg1 (LENGTH('a) - 1) ctx;
          ctx = tcg_gen_and_tl rl rl arg2 ctx;
          ctx = tcg_gen_sub_tl ret rh rl ctx;
          ctx = tcg_temp_free rl ctx;
          ctx = tcg_temp_free rh ctx
      in ctx)"

definition gen_div :: "tcgv \<Rightarrow> tcgv \<Rightarrow> tcgv \<Rightarrow> 'a::len word translation \<Rightarrow> 'a word translation" where
  "gen_div ret source1 source2 ctx =
     (let (cond1, ctx) = tcg_temp_new ctx;
          (cond2, ctx) = tcg_temp_new ctx;
          (zeroreg, ctx) = tcg_const_tl 0 ctx;
          (resultopt1, ctx) = tcg_temp_new ctx;
          ctx = tcg_gen_movi_tl resultopt1 (- 1) ctx;
          ctx = tcg_gen_setcondi_tl TCG_COND_EQ cond2 source2 (NOT 0) ctx;
          ctx = tcg_gen_setcondi_tl TCG_COND_EQ cond1 source1 (push_bit (LENGTH('a) - 1) 1) ctx;
          ctx = tcg_gen_and_tl cond1 cond1 cond2 ctx;
          ctx = tcg_gen_setcondi_tl TCG_COND_EQ cond2 source2 0 ctx;
          ctx = tcg_gen_movcond_tl TCG_COND_EQ source1 cond2 zeroreg source1 resultopt1 ctx;
          ctx = tcg_gen_or_tl cond1 cond1 cond2 ctx;
          ctx = tcg_gen_movi_tl resultopt1 1 ctx;
          ctx = tcg_gen_movcond_tl TCG_COND_EQ source2 cond1 zeroreg source2 resultopt1 ctx;
          ctx = tcg_gen_div_tl ret source1 source2 ctx;
          ctx = tcg_temp_free cond1 ctx;
          ctx = tcg_temp_free cond2 ctx;
          ctx = tcg_temp_free zeroreg ctx;
          ctx = tcg_temp_free resultopt1 ctx
      in ctx)"

definition gen_divu :: "tcgv \<Rightarrow> tcgv \<Rightarrow> tcgv \<Rightarrow> 'a::len word translation \<Rightarrow> 'a word translation" where
  "gen_divu ret source1 source2 ctx =
     (let (cond1, ctx) = tcg_temp_new ctx;
          (zeroreg, ctx) = tcg_const_tl 0 ctx;
          (resultopt1, ctx) = tcg_temp_new ctx;
          ctx = tcg_gen_setcondi_tl TCG_COND_EQ cond1 source2 0 ctx;
          ctx = tcg_gen_movi_tl resultopt1 (- 1) ctx;
          ctx = tcg_gen_movcond_tl TCG_COND_EQ source1 cond1 zeroreg source1 resultopt1 ctx;
          ctx = tcg_gen_movi_tl resultopt1 1 ctx;
          ctx = tcg_gen_movcond_tl TCG_COND_EQ source2 cond1 zeroreg source2 resultopt1 ctx;
          ctx = tcg_gen_divu_tl ret source1 source2 ctx;
          ctx = tcg_temp_free cond1 ctx;
          ctx = tcg_temp_free zeroreg ctx;
          ctx = tcg_temp_free resultopt1 ctx
      in ctx)"

definition gen_rem :: "tcgv \<Rightarrow> tcgv \<Rightarrow> tcgv \<Rightarrow> 'a::len word translation \<Rightarrow> 'a word translation" where
  "gen_rem ret source1 source2 ctx =
     (let (cond1, ctx) = tcg_temp_new ctx;
          (cond2, ctx) = tcg_temp_new ctx;
          (zeroreg, ctx) = tcg_const_tl 0 ctx;
          (resultopt1, ctx) = tcg_temp_new ctx;
          ctx = tcg_gen_movi_tl resultopt1 1 ctx;
          ctx = tcg_gen_setcondi_tl TCG_COND_EQ cond2 source2 (- 1) ctx;
          ctx = tcg_gen_setcondi_tl TCG_COND_EQ cond1 source1 (push_bit (LENGTH('a) - 1) 1) ctx;
          ctx = tcg_gen_and_tl cond2 cond1 cond2 ctx;
          ctx = tcg_gen_setcondi_tl TCG_COND_EQ cond1 source2 0 ctx;
          ctx = tcg_gen_or_tl cond2 cond1 cond2 ctx;
          ctx = tcg_gen_movcond_tl TCG_COND_EQ source2 cond2 zeroreg source2 resultopt1 ctx;
          ctx = tcg_gen_rem_tl resultopt1 source1 source2 ctx;
          ctx = tcg_gen_movcond_tl TCG_COND_EQ ret cond1 zeroreg resultopt1 source1 ctx;
          ctx = tcg_temp_free cond1 ctx;
          ctx = tcg_temp_free cond2 ctx;
          ctx = tcg_temp_free zeroreg ctx;
          ctx = tcg_temp_free resultopt1 ctx
      in ctx)"

definition gen_remu :: "tcgv \<Rightarrow> tcgv \<Rightarrow> tcgv \<Rightarrow> 'a::len word translation \<Rightarrow> 'a word translation" where
  "gen_remu ret source1 source2 ctx =
     (let (cond1, ctx) = tcg_temp_new ctx;
          (zeroreg, ctx) = tcg_const_tl 0 ctx;
          (resultopt1, ctx) = tcg_temp_new ctx;
          ctx = tcg_gen_movi_tl resultopt1 1 ctx;
          ctx = tcg_gen_setcondi_tl TCG_COND_EQ cond1 source2 0 ctx;
          ctx = tcg_gen_movcond_tl TCG_COND_EQ source2 cond1 zeroreg source2 resultopt1 ctx;
          ctx = tcg_gen_remu_tl resultopt1 source1 source2 ctx;
          ctx = tcg_gen_movcond_tl TCG_COND_EQ ret cond1 zeroreg resultopt1 source1 ctx;
          ctx = tcg_temp_free cond1 ctx;
          ctx = tcg_temp_free zeroreg ctx;
          ctx = tcg_temp_free resultopt1 ctx
      in ctx)"

text \<open>
  The call site of the arithmetic generators. \<open>arg_arith\<close> is declared by the generated
  decoder; the file reads its fields \<open>rd\<close>, \<open>rs1\<close> and \<open>rs2\<close>, here \<open>arg_rd\<close>,
  \<open>arg_rs1\<close> and \<open>arg_rs2\<close>.
\<close>

record arg_arith =
  arg_rd :: int
  arg_rs1 :: int
  arg_rs2 :: int

definition gen_arith ::
  "arg_arith \<Rightarrow> (tcgv \<Rightarrow> tcgv \<Rightarrow> tcgv \<Rightarrow> 'a word translation \<Rightarrow> 'a word translation)
     \<Rightarrow> 'a::len word translation \<Rightarrow> bool \<times> 'a word translation" where
  "gen_arith a func ctx =
     (let (source1, ctx) = tcg_temp_new ctx;
          (source2, ctx) = tcg_temp_new ctx;
          ctx = gen_get_gpr source1 (arg_rs1 a) ctx;
          ctx = gen_get_gpr source2 (arg_rs2 a) ctx;
          ctx = func source1 source1 source2 ctx;
          ctx = gen_set_gpr (arg_rd a) source1 ctx;
          ctx = tcg_temp_free source1 ctx;
          ctx = tcg_temp_free source2 ctx
      in (True, ctx))"

section \<open>Jumps, rounding mode, system instructions\<close>

definition gen_jal ::
  "bool \<Rightarrow> 'a word CPURISCVState \<Rightarrow> int \<Rightarrow> 'a word \<Rightarrow> 'a::len word translation \<Rightarrow> 'a word translation" where
  "gen_jal user_only env' rd imm ctx =
     (let next_pc = pc_next ctx + imm in
      if \<not> riscv_has_ext env' RVC \<and> (next_pc AND 3) \<noteq> 0 then gen_exception_inst_addr_mis ctx
      else
        (let ctx = (if rd \<noteq> 0 then tcg_gen_movi_tl (cpu_gpr rd) (pc_succ_insn ctx) ctx else ctx);
             ctx = gen_goto_tb user_only 0 (pc_next ctx + imm) ctx
         in ctx\<lparr>is_jmp := DISAS_NORETURN\<rparr>))"

definition gen_set_rm :: "int \<Rightarrow> 'a::len word translation \<Rightarrow> 'a word translation" where
  "gen_set_rm rm ctx =
     (if frm ctx = rm then ctx
      else
        (let ctx = ctx\<lparr>frm := rm\<rparr>
         in gen_helper_set_rounding_mode rm ctx))"

text \<open>
  \<open>OPC_RISC_ECALL\<close> is declared in instmap.h; its value plays no part below, only
  whether \<open>opc\<close> equals it.
\<close>

definition OPC_RISC_ECALL :: "32 word" where
  "OPC_RISC_ECALL = 0x73"

definition gen_system ::
  "'a word CPURISCVState \<Rightarrow> 32 word \<Rightarrow> int \<Rightarrow> int \<Rightarrow> int \<Rightarrow> 'a::len word translation \<Rightarrow> 'a word translation" where
  "gen_system env' opc rd rs1 csr ctx =
     (let ctx = tcg_gen_movi_tl cpu_pc (pc_next ctx) ctx in
      if opc = OPC_RISC_ECALL then
        (if csr = 0 then
           (let ctx = generate_exception RISCV_EXCP_U_ECALL ctx;
                ctx = tcg_gen_exit_tb None 0 ctx
            in ctx\<lparr>is_jmp := DISAS_NORETURN\<rparr>)
         else if csr = 1 then
           (let ctx = generate_exception RISCV_EXCP_BREAKPOINT ctx;
                ctx = tcg_gen_exit_tb None 0 ctx
            in ctx\<lparr>is_jmp := DISAS_NORETURN\<rparr>)
         else gen_exception_illegal ctx)
      else ctx)"

section \<open>Decoding one instruction\<close>

definition extract32 :: "32 word \<Rightarrow> nat \<Rightarrow> nat \<Rightarrow> 32 word" where
  "extract32 v start len = take_bit len (drop_bit start v)"

text \<open>
  The two generated decoders (decode_insn16.inc.c, decode_insn32.inc.c) and the
  translators they call are not in this file: \<open>decode_opc\<close> takes them as its first
  two arguments. A decoder receives the instruction word and the translation state and
  returns whether a pattern matched, with the state its translator left.
\<close>

type_synonym ('i, 'a) decoder = "'i word \<Rightarrow> 'a word translation \<Rightarrow> bool \<times> 'a word translation"

definition decode_opc ::
  "(16, 'a) decoder \<Rightarrow> (32, 'a) decoder \<Rightarrow> 'a::len word translation \<Rightarrow> 'a word translation" where
  "decode_opc decode_insn16 decode_insn32 ctx =
     (if extract32 (opcode ctx) 0 2 \<noteq> 3 then
        (if \<not> riscv_has_ext (env ctx) RVC then gen_exception_illegal ctx
         else
           (let ctx = ctx\<lparr>pc_succ_insn := pc_next ctx + 2\<rparr>;
                (ok, ctx) = decode_insn16 (ucast (opcode ctx)) ctx
            in if \<not> ok then gen_exception_illegal ctx else ctx))
      else
        (let ctx = ctx\<lparr>pc_succ_insn := pc_next ctx + 4\<rparr>;
             (ok, ctx) = decode_insn32 (opcode ctx) ctx
         in if \<not> ok then gen_exception_illegal ctx else ctx))"

section \<open>The translator hooks\<close>

text \<open>\<open>TB_FLAGS_MMU_MASK\<close> is declared in target/riscv/cpu.h.\<close>

definition TB_FLAGS_MMU_MASK :: "32 word" where
  "TB_FLAGS_MMU_MASK = 3"

definition riscv_tr_init_disas_context :: "'a::len word translation \<Rightarrow> 'a word translation" where
  "riscv_tr_init_disas_context ctx =
     ctx\<lparr>pc_succ_insn := pc_first ctx,
         flags := tb_flags (tb ctx),
         mem_idx := tb_flags (tb ctx) AND TB_FLAGS_MMU_MASK,
         frm := - 1\<rparr>"

definition riscv_tr_tb_start :: "'a::len word translation \<Rightarrow> 'a word translation" where
  "riscv_tr_tb_start ctx = ctx"

definition riscv_tr_insn_start :: "'a::len word translation \<Rightarrow> 'a word translation" where
  "riscv_tr_insn_start ctx = tcg_gen_insn_start (pc_next ctx) ctx"

definition riscv_tr_breakpoint_check :: "'a::len word translation \<Rightarrow> bool \<times> 'a word translation" where
  "riscv_tr_breakpoint_check ctx =
     (let ctx = tcg_gen_movi_tl cpu_pc (pc_next ctx) ctx;
          ctx = ctx\<lparr>is_jmp := DISAS_NORETURN\<rparr>;
          ctx = gen_exception_debug ctx;
          ctx = ctx\<lparr>pc_next := pc_next ctx + 4\<rparr>
      in (True, ctx))"

text \<open>
  \<open>CPUState\<close>, as far as translation reads it: the CPU state \<open>env_ptr\<close> points to, the
  guest's code as \<open>cpu_ldl_code\<close> fetches it (\<open>None\<close> where the fetch faults, which
  abandons the translation), the debugger's breakpoint addresses and the single-step
  flag.
\<close>

record 'w CPUState =
  env_ptr :: "'w CPURISCVState"
  cpu_ldl_code :: "'w \<Rightarrow> 32 word option"
  breakpoints :: "'w list"
  cpu_singlestep_enabled :: bool

datatype trans_error = FetchFault | AssertNotReached

definition riscv_tr_translate_insn ::
  "(16, 'a) decoder \<Rightarrow> (32, 'a) decoder \<Rightarrow> 'a word CPUState \<Rightarrow> 'a::len word translation
     \<Rightarrow> trans_error + 'a word translation" where
  "riscv_tr_translate_insn decode_insn16 decode_insn32 cpu ctx =
     (let ctx = ctx\<lparr>env := env_ptr cpu\<rparr> in
      case cpu_ldl_code cpu (pc_next ctx) of
        None \<Rightarrow> Inl FetchFault
      | Some w \<Rightarrow>
          (let ctx = ctx\<lparr>opcode := w\<rparr>;
               ctx = decode_opc decode_insn16 decode_insn32 ctx;
               ctx = ctx\<lparr>pc_next := pc_succ_insn ctx\<rparr>
           in Inr (if is_jmp ctx = DISAS_NEXT then
                     (let page_start = pc_first ctx AND TARGET_PAGE_MASK
                      in if pc_next ctx - page_start \<ge> TARGET_PAGE_SIZE
                         then ctx\<lparr>is_jmp := DISAS_TOO_MANY\<rparr> else ctx)
                   else ctx)))"

definition riscv_tr_tb_stop ::
  "bool \<Rightarrow> 'a::len word translation \<Rightarrow> trans_error + 'a word translation" where
  "riscv_tr_tb_stop user_only ctx =
     (case is_jmp ctx of
        DISAS_TOO_MANY \<Rightarrow> Inr (gen_goto_tb user_only 0 (pc_next ctx) ctx)
      | DISAS_NORETURN \<Rightarrow> Inr ctx
      | DISAS_NEXT \<Rightarrow> Inl AssertNotReached)"

section \<open>The block driver\<close>

text \<open>
  Modelled from the spec: the outer driver \<open>translator_loop\<close> (accel/tcg/translator.c),
  which \<open>gen_intermediate_code\<close> calls with the hooks above, is not in this file. The
  spec's section 4.4 gives it as the state machine
  \<open>Init \<rightarrow> BlockStart \<rightarrow> {InsnStart \<rightarrow> BreakpointCheck \<rightarrow> Translate}* \<rightarrow> BlockStop\<close>:
  \<open>Init\<close> sets the base fields from the block and calls \<open>init_disas_context\<close>; before
  each instruction a breakpoint registered at the current PC ends the block through
  \<open>breakpoint_check\<close>; otherwise one instruction is translated; the loop goes on while
  the exit reason is still \<open>DISAS_NEXT\<close> and stops with \<open>DISAS_TOO_MANY\<close> at the
  instruction-count limit; \<open>BlockStop\<close> calls \<open>tb_stop\<close>.
\<close>

definition translate_one ::
  "(16, 'a) decoder \<Rightarrow> (32, 'a) decoder \<Rightarrow> 'a word CPUState \<Rightarrow> 'a::len word translation
     \<Rightarrow> trans_error + 'a word translation" where
  "translate_one decode_insn16 decode_insn32 cpu ctx =
     (let ctx = ctx\<lparr>num_insns := num_insns ctx + 1\<rparr>;
          ctx = riscv_tr_insn_start ctx
      in if pc_next ctx \<in> set (breakpoints cpu)
         then Inr (snd (riscv_tr_breakpoint_check ctx))
         else riscv_tr_translate_insn decode_insn16 decode_insn32 cpu ctx)"

text \<open>The second argument is the number of instructions still allowed after this one.\<close>

fun translate_loop ::
  "(16, 'a) decoder \<Rightarrow> (32, 'a) decoder \<Rightarrow> 'a word CPUState \<Rightarrow> nat \<Rightarrow> 'a::len word translation
     \<Rightarrow> trans_error + 'a word translation" where
  "translate_loop decode_insn16 decode_insn32 cpu 0 ctx =
     (case translate_one decode_insn16 decode_insn32 cpu ctx of
        Inl e \<Rightarrow> Inl e
      | Inr ctx \<Rightarrow>
          Inr (if is_jmp ctx = DISAS_NEXT then ctx\<lparr>is_jmp := DISAS_TOO_MANY\<rparr> else ctx))"
| "translate_loop decode_insn16 decode_insn32 cpu (Suc n) ctx =
     (case translate_one decode_insn16 decode_insn32 cpu ctx of
        Inl e \<Rightarrow> Inl e
      | Inr ctx \<Rightarrow>
          if is_jmp ctx = DISAS_NEXT then translate_loop decode_insn16 decode_insn32 cpu n ctx
          else Inr ctx)"

definition translator_loop ::
  "bool \<Rightarrow> (16, 'a) decoder \<Rightarrow> (32, 'a) decoder \<Rightarrow> 'a word CPUState \<Rightarrow> 'a word TranslationBlock
     \<Rightarrow> nat \<Rightarrow> 'a::len word translation \<Rightarrow> trans_error + 'a word translation" where
  "translator_loop user_only decode_insn16 decode_insn32 cpu tb' max_insns ctx =
     (let ctx = ctx\<lparr>tb := tb', pc_first := tb_pc tb', pc_next := tb_pc tb',
                    is_jmp := DISAS_NEXT, num_insns := 0,
                    singlestep_enabled := cpu_singlestep_enabled cpu\<rparr>;
          ctx = riscv_tr_init_disas_context ctx;
          ctx = riscv_tr_tb_start ctx
      in case translate_loop decode_insn16 decode_insn32 cpu (max_insns - 1) ctx of
           Inl e \<Rightarrow> Inl e
         | Inr ctx \<Rightarrow> riscv_tr_tb_stop user_only ctx)"

text \<open>
  The instructions of a block are the \<open>insn_start\<close> marks among its operations, one per
  instruction, each carrying the instruction's address (\<open>riscv_tr_insn_start\<close>).
\<close>

definition insn_starts :: "'a word tcg_op list \<Rightarrow> 'a word list" where
  "insn_starts xs = concat (map (\<lambda>x. case x of Op_insn_start a \<Rightarrow> [a] | _ \<Rightarrow> []) xs)"

text \<open>Two addresses lie in the same memory page.\<close>

definition same_page :: "'a::len word \<Rightarrow> 'a word \<Rightarrow> bool" where
  "same_page a b \<longleftrightarrow> (a AND TARGET_PAGE_MASK) = (b AND TARGET_PAGE_MASK)"

text \<open>
  What the theorems on the driver ask of the absent decoders: a translator does not
  move the block start or the successor address, and emits no \<open>insn_start\<close> of its own.
\<close>

definition decoder_sane :: "('i, 'a) decoder \<Rightarrow> bool" where
  "decoder_sane d \<longleftrightarrow>
     (\<forall>insn c. pc_first (snd (d insn c)) = pc_first c
              \<and> pc_succ_insn (snd (d insn c)) = pc_succ_insn c
              \<and> insn_starts (ops (snd (d insn c))) = insn_starts (ops c))"

section \<open>Decoders for the instances below\<close>

text \<open>A decoder that matches no pattern, and one that takes every word as a no-op.\<close>

definition decode_none :: "('i, 'a) decoder" where
  "decode_none insn ctx = (False, ctx)"

definition decode_nop :: "('i, 'a) decoder" where
  "decode_nop insn ctx = (True, ctx)"

text \<open>
  A 32-bit decoder that takes every word as the jump-and-link to \<open>pc + imm\<close> with link
  register \<open>rd\<close>, translated by \<open>gen_jal\<close>.
\<close>

definition decode_jal :: "bool \<Rightarrow> int \<Rightarrow> 'a word \<Rightarrow> (32, 'a::len) decoder" where
  "decode_jal user_only rd imm insn ctx = (True, gen_jal user_only (env ctx) rd imm ctx)"

section \<open>Observing a run, and concrete states for the instances below\<close>

text \<open>The value a run leaves in temporary \<open>k\<close>, when it reaches the end of the list.\<close>

definition result_temp :: "nat \<Rightarrow> 'a word exec_result \<Rightarrow> 'a word option" where
  "result_temp k res = (case res of Continue s \<Rightarrow> Some (temps s k) | _ \<Rightarrow> None)"

text \<open>The integer registers a run leaves, when it reaches the end of the list.\<close>

definition result_gpr :: "'a word exec_result \<Rightarrow> (int \<Rightarrow> 'a word) option" where
  "result_gpr res = (case res of Continue s \<Rightarrow> Some (gpr s) | _ \<Rightarrow> None)"

text \<open>The value of integer register \<open>i\<close> as an instruction reads it.\<close>

definition reg :: "'a::len word tcg_state \<Rightarrow> int \<Rightarrow> 'a word" where
  "reg r i = (if i = 0 then 0 else gpr r i)"

text \<open>The fault address a run leaves, when it ends by raising a guest exception.\<close>

definition badaddr_of :: "'a word exec_result \<Rightarrow> 'a word option" where
  "badaddr_of res = (case res of Exception e s \<Rightarrow> Some (badaddr s) | _ \<Rightarrow> None)"

text \<open>
  A 64-bit CPU state with all registers zero and the extensions \<open>exts\<close>, and a run-time
  state over it whose temporaries 0 and 1 hold \<open>a\<close> and \<open>b\<close>.
\<close>

definition ex_env :: "riscv_ext set \<Rightarrow> 64 word CPURISCVState" where
  "ex_env exts = \<lparr>gpr = (\<lambda>_. 0), pc = 0, badaddr = 0, load_res = 0, load_val = 0, misa = exts\<rparr>"

definition ex_state :: "64 word \<Rightarrow> 64 word \<Rightarrow> 64 word tcg_state" where
  "ex_state a b =
     \<lparr>gpr = (\<lambda>_. 0), pc = 0, badaddr = 0, load_res = 0, load_val = 0, misa = {RVC},
      temps = (\<lambda>_. 0)(0 := a, 1 := b), rounding_mode = 0\<rparr>"

text \<open>
  A translation in progress at address \<open>a\<close> of a block that starts at \<open>0x1000\<close>, with
  the extensions \<open>exts\<close>, the instruction word \<open>w\<close>, nothing emitted yet and three
  temporaries allocated.
\<close>

definition ex_ctx :: "64 word \<Rightarrow> riscv_ext set \<Rightarrow> 32 word \<Rightarrow> 64 word translation" where
  "ex_ctx a exts w =
     \<lparr>tb = \<lparr>tb_pc = 0x1000, tb_flags = 0\<rparr>, pc_first = 0x1000, pc_next = a,
      is_jmp = DISAS_NEXT, num_insns = 1, singlestep_enabled = False,
      pc_succ_insn = a, opcode = w, flags = 0, mem_idx = 0, frm = - 1, env = ex_env exts,
      ops = [], nb_temps = 3\<rparr>"

text \<open>
  A CPU whose every code word is \<open>0x00000013\<close> (the standard no-op), with RVC, no
  breakpoint and no single-stepping.
\<close>

definition ex_cpu :: "64 word CPUState" where
  "ex_cpu = \<lparr>env_ptr = ex_env {RVC}, cpu_ldl_code = (\<lambda>a. Some 0x00000013),
             breakpoints = [], cpu_singlestep_enabled = False\<rparr>"

section \<open>Word arithmetic used by the generators\<close>

lemma signed_take_bit_exp: "signed_take_bit n ((2::int) ^ n) = - (2 ^ n)"
  by (simp add: signed_take_bit_eq_take_bit_shift take_bit_eq_mod)

lemma min_signed_eq: "(min_signed :: 'a::len word) = word_of_int (2 ^ (LENGTH('a) - 1))"
  by (simp add: min_signed_def push_bit_eq_mult)

lemma sint_min_signed: "sint (min_signed :: 'a::len word) = - (2 ^ (LENGTH('a) - 1))"
  unfolding min_signed_eq sint_sbintrunc' by (rule signed_take_bit_exp)

lemma sint_eq_min_iff: "sint (a :: 'a::len word) = - (2 ^ (LENGTH('a) - 1)) \<longleftrightarrow> a = min_signed"
  by (metis sint_min_signed word_eq_iff_signed)

lemma sint_eq_m1_iff: "sint (b :: 'a::len word) = - 1 \<longleftrightarrow> b = - 1"
  by (metis signed_minus_1 signed_word_eqI)

lemma sint_eq_0_iff: "sint (b :: 'a::len word) = 0 \<longleftrightarrow> b = 0"
  by (metis signed_eq_0_iff)

lemma sint_uint_bit:
  fixes a :: "'a::len word"
  shows "sint a = uint a - 2 ^ LENGTH('a) * of_bool (bit a (LENGTH('a) - 1))"
proof -
  have "sint a = signed_take_bit (LENGTH('a) - 1) (uint a)" by (simp add: sint_uint)
  also have "\<dots> = take_bit (Suc (LENGTH('a) - 1)) (uint a)
      - 2 ^ Suc (LENGTH('a) - 1) * of_bool (bit (uint a) (LENGTH('a) - 1))"
    by (rule signed_take_bit_eq_take_bit_minus)
  also have "Suc (LENGTH('a) - 1) = LENGTH('a)" by simp
  finally show ?thesis by (simp add: take_bit_int_eq_self_iff bit_uint_iff uint_lt2p)
qed

lemma mulhsu_int:
  fixes a b :: "'a::len word"
  shows "(sint a * uint b) div 2 ^ LENGTH('a)
       = (uint a * uint b) div 2 ^ LENGTH('a) - uint b * of_bool (bit a (LENGTH('a) - 1))"
proof -
  let ?N = "(2::int) ^ LENGTH('a)"
  let ?c = "uint b * of_bool (bit a (LENGTH('a) - 1))"
  have "sint a * uint b = uint a * uint b + (- ?c) * ?N"
    by (simp add: sint_uint_bit algebra_simps)
  then have "(sint a * uint b) div ?N = (uint a * uint b + (- ?c) * ?N) div ?N" by simp
  also have "\<dots> = (- ?c) + (uint a * uint b) div ?N"
    by (rule div_mult_self1) simp
  finally show ?thesis by simp
qed

lemma mulhsu_word:
  fixes a b :: "'a::len word"
  shows "word_of_int ((uint a * uint b) div 2 ^ LENGTH('a)) - (signed_drop_bit (LENGTH('a) - 1) a AND b)
       = (word_of_int ((sint a * uint b) div 2 ^ LENGTH('a)) :: 'a word)"
proof -
  have s: "signed_drop_bit (LENGTH('a) - 1) a = (if bit a (LENGTH('a) - Suc 0) then - 1 else 0)"
    by (rule bit_word_eqI) (auto simp add: bit_signed_drop_bit_iff not_le)
  show ?thesis
  proof (cases "bit a (LENGTH('a) - Suc 0)")
    case True
    then show ?thesis unfolding s mulhsu_int by simp
  next
    case False
    then show ?thesis unfolding s mulhsu_int by simp
  qed
qed

lemma mulhsu_range:
  fixes a b :: "'a::len word"
  shows "- (2 ^ (LENGTH('a) - 1)) \<le> (sint a * uint b) div 2 ^ LENGTH('a)
       \<and> (sint a * uint b) div 2 ^ LENGTH('a) < 2 ^ (LENGTH('a) - 1)"
proof -
  let ?N = "(2::int) ^ LENGTH('a)"
  let ?m = "(2::int) ^ (LENGTH('a) - 1)"
  have ra: "- ?m \<le> sint a" "sint a < ?m" by (rule sint_ge, rule sint_lt)
  have "uint b < ?N" by (rule uint_lt2p)
  then have "uint b \<le> ?N" by (rule less_imp_le)
  then have rb: "0 \<le> uint b" "uint b \<le> ?N" by (simp, assumption)
  have mpos: "0 < ?m" "0 < ?N" by simp_all
  have "(- ?m) * ?N \<le> (- ?m) * uint b"
    using mult_left_mono_neg [of "uint b" ?N "- ?m"] rb mpos by simp
  also have "\<dots> \<le> sint a * uint b"
    using mult_right_mono [of "- ?m" "sint a" "uint b"] ra rb by simp
  finally have "(- ?m) * ?N div ?N \<le> (sint a * uint b) div ?N"
    by (intro zdiv_mono1) auto
  moreover have "(- ?m) * ?N div ?N = - ?m" by (rule nonzero_mult_div_cancel_right) simp
  ultimately have lo: "- ?m \<le> (sint a * uint b) div ?N" by (simp only:)
  have "sint a * uint b \<le> (?m - 1) * uint b"
    using mult_right_mono [of "sint a" "?m - 1" "uint b"] ra rb by simp
  also have "\<dots> \<le> (?m - 1) * ?N"
    using mult_left_mono [of "uint b" ?N "?m - 1"] rb mpos by simp
  also have "\<dots> < ?m * ?N" by (simp add: algebra_simps)
  finally have "sint a * uint b < ?m * ?N" .
  have hi: "(sint a * uint b) div ?N < ?m"
  proof (rule ccontr)
    assume "\<not> (sint a * uint b) div ?N < ?m"
    then have "?m \<le> (sint a * uint b) div ?N" by simp
    then have "?m * ?N \<le> (sint a * uint b) div ?N * ?N"
      by (rule mult_right_mono) simp
    moreover have "(sint a * uint b) div ?N * ?N + (sint a * uint b) mod ?N = sint a * uint b"
      by (rule div_mult_mod_eq)
    moreover have "0 \<le> (sint a * uint b) mod ?N" by simp
    ultimately show False using \<open>sint a * uint b < ?m * ?N\<close> by linarith
  qed
  with lo show ?thesis by simp
qed

lemma sdiv_in_range:
  fixes a b :: "'a::len word"
  assumes "\<not> (a = min_signed \<and> b = - 1)"
  shows "- (2 ^ (LENGTH('a) - 1)) \<le> sint a sdiv sint b \<and> sint a sdiv sint b < 2 ^ (LENGTH('a) - 1)"
proof -
  let ?m = "(2::int) ^ (LENGTH('a) - 1)"
  have ra: "- ?m \<le> sint a" "sint a < ?m" by (rule sint_ge, rule sint_lt)
  have rg: "- \<bar>sint a\<bar> \<le> sint a sdiv sint b" "sint a sdiv sint b \<le> \<bar>sint a\<bar>"
    using sdiv_int_range [of "sint a" "sint b"] by auto
  have lo: "- ?m \<le> sint a sdiv sint b" using ra rg by linarith
  have "sint a sdiv sint b \<noteq> ?m"
  proof
    assume e: "sint a sdiv sint b = ?m"
    then have "\<bar>sint a\<bar> = ?m" using ra rg by linarith
    then have sa: "sint a = - ?m" using ra by linarith
    then have "a = min_signed" by (simp only: sint_eq_min_iff)
    moreover have "sint a \<noteq> 0" using sa by simp
    then have "sint b = - 1" using e sa int_sdiv_negated_is_minus1 [of "sint a" "sint b"] by simp
    then have "b = - 1" by (simp only: sint_eq_m1_iff)
    ultimately show False using assms by simp
  qed
  then have "sint a sdiv sint b < ?m" using ra rg by linarith
  with lo show ?thesis by simp
qed

lemma sint_sdiv_exact:
  fixes a b :: "'a::len word"
  assumes "\<not> (a = min_signed \<and> b = - 1)"
  shows "sint (word_of_int (sint a sdiv sint b) :: 'a word) = sint a sdiv sint b"
  using sdiv_in_range [OF assms] by (simp add: sint_sbintrunc' signed_take_bit_int_eq_self)

lemma sint_smod_exact:
  fixes a b :: "'a::len word"
  shows "sint (word_of_int (sint a smod sint b) :: 'a word) = sint a smod sint b"
proof (cases "b = 0")
  case True
  then show ?thesis by simp
next
  case False
  then have nz: "sint b \<noteq> 0" by (simp add: sint_eq_0_iff)
  let ?m = "(2::int) ^ (LENGTH('a) - 1)"
  have rb: "- ?m \<le> sint b" "sint b < ?m" by (rule sint_ge, rule sint_lt)
  have "sint a smod sint b \<in> {- \<bar>sint b\<bar> + 1..\<bar>sint b\<bar> - 1}"
    using smod_int_range [OF nz] .
  then have "- ?m \<le> sint a smod sint b \<and> sint a smod sint b < ?m"
    using rb by auto
  then show ?thesis by (simp add: sint_sbintrunc' signed_take_bit_int_eq_self)
qed

lemma smod_one: "(k::int) smod 1 = 0"
  by (simp add: signed_modulo_int_def)

lemma sint_mulhsu_exact:
  fixes a b :: "'a::len word"
  shows "sint (word_of_int ((sint a * uint b) div 2 ^ LENGTH('a)) :: 'a word)
       = (sint a * uint b) div 2 ^ LENGTH('a)"
  using mulhsu_range [of a b] by (simp add: sint_sbintrunc' signed_take_bit_int_eq_self)

section \<open>What the arithmetic generators emit, and what it computes\<close>

lemmas gen_defs = tcg_temp_new_def tcg_temp_free_def tcg_const_tl_def tcg_gen_movi_tl_def
  tcg_gen_mov_tl_def tcg_gen_setcondi_tl_def tcg_gen_movcond_tl_def tcg_gen_and_tl_def
  tcg_gen_or_tl_def tcg_gen_sub_tl_def tcg_gen_div_tl_def tcg_gen_divu_tl_def tcg_gen_rem_tl_def
  tcg_gen_remu_tl_def tcg_gen_mulu2_tl_def tcg_gen_sari_tl_def

lemmas exec_defs = Let_def and_then_def with_val_def binop_def eval_cond_def result_temp_def

lemma emitted_gen_div:
  "emitted (gen_div ret s1 s2) (ctx :: 'a::len word translation) =
    (let n = nb_temps ctx; cond1 = TCGv_temp n; cond2 = TCGv_temp (Suc n);
         zeroreg = TCGv_temp (Suc (Suc n)); resultopt1 = TCGv_temp (Suc (Suc (Suc n))) in
     [Op_movi zeroreg 0,
      Op_movi resultopt1 (- 1),
      Op_setcondi TCG_COND_EQ cond2 s2 (NOT 0),
      Op_setcondi TCG_COND_EQ cond1 s1 (push_bit (LENGTH('a) - 1) 1),
      Op_and cond1 cond1 cond2,
      Op_setcondi TCG_COND_EQ cond2 s2 0,
      Op_movcond TCG_COND_EQ s1 cond2 zeroreg s1 resultopt1,
      Op_or cond1 cond1 cond2,
      Op_movi resultopt1 1,
      Op_movcond TCG_COND_EQ s2 cond1 zeroreg s2 resultopt1,
      Op_div ret s1 s2])"
  by (simp add: gen_div_def gen_defs emitted_def emit_def Let_def)

lemma emitted_gen_divu:
  "emitted (gen_divu ret s1 s2) (ctx :: 'a::len word translation) =
    (let n = nb_temps ctx; cond1 = TCGv_temp n;
         zeroreg = TCGv_temp (Suc n); resultopt1 = TCGv_temp (Suc (Suc n)) in
     [Op_movi zeroreg 0,
      Op_setcondi TCG_COND_EQ cond1 s2 0,
      Op_movi resultopt1 (- 1),
      Op_movcond TCG_COND_EQ s1 cond1 zeroreg s1 resultopt1,
      Op_movi resultopt1 1,
      Op_movcond TCG_COND_EQ s2 cond1 zeroreg s2 resultopt1,
      Op_divu ret s1 s2])"
  by (simp add: gen_divu_def gen_defs emitted_def emit_def Let_def)

lemma emitted_gen_rem:
  "emitted (gen_rem ret s1 s2) (ctx :: 'a::len word translation) =
    (let n = nb_temps ctx; cond1 = TCGv_temp n; cond2 = TCGv_temp (Suc n);
         zeroreg = TCGv_temp (Suc (Suc n)); resultopt1 = TCGv_temp (Suc (Suc (Suc n))) in
     [Op_movi zeroreg 0,
      Op_movi resultopt1 1,
      Op_setcondi TCG_COND_EQ cond2 s2 (- 1),
      Op_setcondi TCG_COND_EQ cond1 s1 (push_bit (LENGTH('a) - 1) 1),
      Op_and cond2 cond1 cond2,
      Op_setcondi TCG_COND_EQ cond1 s2 0,
      Op_or cond2 cond1 cond2,
      Op_movcond TCG_COND_EQ s2 cond2 zeroreg s2 resultopt1,
      Op_rem resultopt1 s1 s2,
      Op_movcond TCG_COND_EQ ret cond1 zeroreg resultopt1 s1])"
  by (simp add: gen_rem_def gen_defs emitted_def emit_def Let_def)

lemma emitted_gen_remu:
  "emitted (gen_remu ret s1 s2) (ctx :: 'a::len word translation) =
    (let n = nb_temps ctx; cond1 = TCGv_temp n;
         zeroreg = TCGv_temp (Suc n); resultopt1 = TCGv_temp (Suc (Suc n)) in
     [Op_movi zeroreg 0,
      Op_movi resultopt1 1,
      Op_setcondi TCG_COND_EQ cond1 s2 0,
      Op_movcond TCG_COND_EQ s2 cond1 zeroreg s2 resultopt1,
      Op_remu resultopt1 s1 s2,
      Op_movcond TCG_COND_EQ ret cond1 zeroreg resultopt1 s1])"
  by (simp add: gen_remu_def gen_defs emitted_def emit_def Let_def)

lemma emitted_gen_mulhsu:
  "emitted (gen_mulhsu ret a1 a2) (ctx :: 'a::len word translation) =
    (let n = nb_temps ctx; rl = TCGv_temp n; rh = TCGv_temp (Suc n) in
     [Op_mulu2 rl rh a1 a2,
      Op_sari rl a1 (LENGTH('a) - 1),
      Op_and rl rl a2,
      Op_sub ret rh rl])"
  by (simp add: gen_mulhsu_def gen_defs emitted_def emit_def Let_def)

lemma exec_gen_div:
  fixes ctx :: "'a::len word translation" and r :: "'a word tcg_state"
  assumes "1 < LENGTH('a)" "i \<noteq> j" "i < nb_temps ctx" "j < nb_temps ctx" "k < nb_temps ctx"
  shows "result_temp k (exec_ops (emitted (gen_div (TCGv_temp k) (TCGv_temp i) (TCGv_temp j)) ctx) r)
       = Some (if temps r j = 0 then - 1
               else if temps r i = min_signed \<and> temps r j = - 1 then temps r i
               else word_of_int (sint (temps r i) sdiv sint (temps r j)))"
  using assms
  by (simp add: emitted_gen_div exec_defs min_signed_def)

lemma exec_gen_divu:
  fixes ctx :: "'a::len word translation" and r :: "'a word tcg_state"
  assumes "1 < LENGTH('a)" "i \<noteq> j" "i < nb_temps ctx" "j < nb_temps ctx" "k < nb_temps ctx"
  shows "result_temp k (exec_ops (emitted (gen_divu (TCGv_temp k) (TCGv_temp i) (TCGv_temp j)) ctx) r)
       = Some (if temps r j = 0 then - 1 else temps r i div temps r j)"
  using assms
  by (simp add: emitted_gen_divu exec_defs)

lemma exec_gen_rem:
  fixes ctx :: "'a::len word translation" and r :: "'a word tcg_state"
  assumes "1 < LENGTH('a)" "i \<noteq> j" "i < nb_temps ctx" "j < nb_temps ctx" "k < nb_temps ctx"
  shows "result_temp k (exec_ops (emitted (gen_rem (TCGv_temp k) (TCGv_temp i) (TCGv_temp j)) ctx) r)
       = Some (if temps r j = 0 then temps r i
               else word_of_int (sint (temps r i) smod
                      sint (if (temps r i = min_signed \<and> temps r j = - 1) \<or> temps r j = 0
                            then 1 else temps r j)))"
  using assms
  by (simp add: emitted_gen_rem exec_defs min_signed_def)

lemma exec_gen_remu:
  fixes ctx :: "'a::len word translation" and r :: "'a word tcg_state"
  assumes "1 < LENGTH('a)" "i \<noteq> j" "i < nb_temps ctx" "j < nb_temps ctx" "k < nb_temps ctx"
  shows "result_temp k (exec_ops (emitted (gen_remu (TCGv_temp k) (TCGv_temp i) (TCGv_temp j)) ctx) r)
       = Some (if temps r j = 0 then temps r i else temps r i mod temps r j)"
  using assms
  by (simp add: emitted_gen_remu exec_defs)

lemma exec_gen_mulhsu:
  fixes ctx :: "'a::len word translation" and r :: "'a word tcg_state"
  assumes "i < nb_temps ctx" "j < nb_temps ctx" "k < nb_temps ctx"
  shows "result_temp k (exec_ops (emitted (gen_mulhsu (TCGv_temp k) (TCGv_temp i) (TCGv_temp j)) ctx) r)
       = Some (word_of_int ((uint (temps r i) * uint (temps r j)) div 2 ^ LENGTH('a))
               - (signed_drop_bit (LENGTH('a) - 1) (temps r i) AND temps r j))"
  using assms
  by (simp add: emitted_gen_mulhsu exec_defs)

text \<open>
  The generators at their call site: a division instruction with register fields in
  range leaves every register but \<open>rd\<close> as it was and writes to \<open>rd\<close> (unless it is
  register 0) the result computed from the two source registers as read.
\<close>

lemma div_instruction:
  fixes ctx :: "'a::len word translation" and r :: "'a word tcg_state"
  assumes "1 < LENGTH('a)" "0 \<le> arg_rs1 a" "arg_rs1 a < 32" "0 \<le> arg_rs2 a" "arg_rs2 a < 32" "0 \<le> arg_rd a" "arg_rd a < 32"
  shows "result_gpr (exec_ops (emitted (\<lambda>c. snd (gen_arith a gen_div c)) ctx) r)
       = Some (if arg_rd a = 0 then gpr r
               else (gpr r)(arg_rd a :=
                 (if reg r (arg_rs2 a) = 0 then - 1
                  else if reg r (arg_rs1 a) = min_signed \<and> reg r (arg_rs2 a) = - 1 then reg r (arg_rs1 a)
                  else word_of_int (sint (reg r (arg_rs1 a)) sdiv sint (reg r (arg_rs2 a))))))"
  using assms
  by (simp add: gen_arith_def gen_get_gpr_def gen_set_gpr_def gen_div_def gen_defs cpu_gpr_def
      emitted_def emit_def exec_defs min_signed_def result_gpr_def reg_def)

section \<open>Facts about the exception generators, the rounding-mode cache and pages\<close>

lemmas exc_defs = generate_exception_def generate_exception_mbadaddr_def gen_exception_debug_def
  gen_exception_illegal_def gen_exception_inst_addr_mis_def gen_helper_raise_exception_def
  tcg_gen_st_tl_badaddr_def tcg_gen_movi_tl_def tcg_gen_exit_tb_def cpu_pc_def

lemma ops_gen_set_rm:
  "ops (gen_set_rm rm ctx) = ops ctx @ (if frm ctx = rm then [] else [Op_set_rounding_mode rm])"
  by (simp add: gen_set_rm_def gen_helper_set_rounding_mode_def emit_def Let_def)

lemma frm_gen_set_rm: "frm (gen_set_rm rm ctx) = rm"
  by (simp add: gen_set_rm_def gen_helper_set_rounding_mode_def emit_def Let_def)

lemma ops_fold_gen_set_rm:
  "ops (fold gen_set_rm rms ctx)
     = ops ctx @ map Op_set_rounding_mode (tl (remdups_adj (frm ctx # rms)))"
proof (induction rms arbitrary: ctx)
  case Nil
  then show ?case by simp
next
  case (Cons rm rms)
  have "\<exists>ys. remdups_adj (rm # rms) = rm # ys"
    by (simp add: remdups_adj_Cons split: list.split)
  then obtain ys where "remdups_adj (rm # rms) = rm # ys" ..
  then show ?case
    by (simp add: Cons.IH ops_gen_set_rm frm_gen_set_rm)
qed

lemma frm_fold_gen_set_rm: "frm (fold gen_set_rm rms ctx) = last (frm ctx # rms)"
  by (induction rms arbitrary: ctx) (simp_all add: frm_gen_set_rm)

lemma page_mask_eq: "(TARGET_PAGE_MASK :: 'a::len word) = NOT (mask TARGET_PAGE_BITS)"
  by (simp add: TARGET_PAGE_MASK_def TARGET_PAGE_SIZE_def mask_eq_exp_minus_1 push_bit_eq_mult)

lemma split_at_mask:
  fixes x :: "'a::len word"
  shows "x = (x AND NOT (mask k)) + (x AND mask k)"
proof -
  have "(x AND NOT (mask k)) AND (x AND mask k) = 0"
    by (rule bit_word_eqI) (auto simp add: bit_simps)
  then have "(x AND NOT (mask k)) + (x AND mask k) = (x AND NOT (mask k)) OR (x AND mask k)"
    by (rule disjunctive_add_eq_or)
  also have "\<dots> = x"
    by (rule bit_word_eqI) (auto simp add: bit_simps)
  finally show ?thesis by simp
qed

lemma page_check_mask:
  fixes x p :: "'a::len word"
  assumes "k < LENGTH('a)"
  shows "x - (p AND NOT (mask k)) < 2 ^ k \<longleftrightarrow> (x AND NOT (mask k)) = (p AND NOT (mask k))"
proof
  assume e: "(x AND NOT (mask k)) = (p AND NOT (mask k))"
  have "x - (p AND NOT (mask k)) = x AND mask k"
    using split_at_mask [of x k] e by (metis add_diff_cancel_left')
  moreover have "x AND mask k < 2 ^ k"
    by (rule and_mask_less') (rule assms)
  ultimately show "x - (p AND NOT (mask k)) < 2 ^ k" by simp
next
  let ?ps = "p AND NOT (mask k)"
  let ?d = "x - ?ps"
  assume l: "?d < 2 ^ k"
  then have d: "?d AND mask k = ?d" by (rule less_mask_eq)
  have "?ps AND ?d = ?ps AND (?d AND mask k)" by (simp only: d)
  also have "\<dots> = 0"
    by (rule bit_word_eqI) (auto simp add: bit_simps)
  finally have "?ps + ?d = ?ps OR ?d" by (rule disjunctive_add_eq_or)
  then have x: "x = ?ps OR ?d" by simp
  have "x AND NOT (mask k) = (?ps OR (?d AND mask k)) AND NOT (mask k)"
    using x d by simp
  also have "\<dots> = ?ps"
    by (rule bit_word_eqI) (auto simp add: bit_simps)
  finally show "(x AND NOT (mask k)) = ?ps" .
qed

lemma page_size_eq: "(TARGET_PAGE_SIZE :: 'a::len word) = 2 ^ TARGET_PAGE_BITS"
  by (simp add: TARGET_PAGE_SIZE_def push_bit_eq_mult)

lemma page_check:
  fixes x p :: "'a::len word"
  assumes "TARGET_PAGE_BITS < LENGTH('a)"
  shows "x - (p AND TARGET_PAGE_MASK) < TARGET_PAGE_SIZE
         \<longleftrightarrow> (x AND TARGET_PAGE_MASK) = (p AND TARGET_PAGE_MASK)"
  unfolding page_mask_eq page_size_eq by (rule page_check_mask [OF assms])

section \<open>Facts about the block driver\<close>

lemma insn_starts_append: "insn_starts (xs @ ys) = insn_starts xs @ insn_starts ys"
  by (simp add: insn_starts_def)

lemma insn_starts_Nil: "insn_starts [] = []"
  by (simp add: insn_starts_def)

lemma insn_starts_Cons:
  "insn_starts (x # xs) = (case x of Op_insn_start a \<Rightarrow> [a] | _ \<Rightarrow> []) @ insn_starts xs"
  by (simp add: insn_starts_def)

lemmas insn_starts_simps = insn_starts_append insn_starts_Nil insn_starts_Cons

lemma gen_exception_illegal_keeps:
  "pc_first (gen_exception_illegal c) = pc_first c"
  "pc_succ_insn (gen_exception_illegal c) = pc_succ_insn c"
  "insn_starts (ops (gen_exception_illegal c)) = insn_starts (ops c)"
  "is_jmp (gen_exception_illegal c) = DISAS_NORETURN"
  by (simp_all add: exc_defs emit_def Let_def insn_starts_simps)

lemma decode_opc_keeps:
  fixes c :: "'a::len word translation"
  assumes "decoder_sane d16" "decoder_sane d32"
  shows "pc_first (decode_opc d16 d32 c) = pc_first c"
    and "insn_starts (ops (decode_opc d16 d32 c)) = insn_starts (ops c)"
proof -
  obtain ok1 c1 where r1: "d16 (ucast (opcode c)) (c\<lparr>pc_succ_insn := pc_next c + 2\<rparr>) = (ok1, c1)"
    by (cases "d16 (ucast (opcode c)) (c\<lparr>pc_succ_insn := pc_next c + 2\<rparr>)")
  obtain ok2 c2 where r2: "d32 (opcode c) (c\<lparr>pc_succ_insn := pc_next c + 4\<rparr>) = (ok2, c2)"
    by (cases "d32 (opcode c) (c\<lparr>pc_succ_insn := pc_next c + 4\<rparr>)")
  have k1: "pc_first c1 = pc_first c" "insn_starts (ops c1) = insn_starts (ops c)"
    using assms(1) [unfolded decoder_sane_def, rule_format,
        of "ucast (opcode c)" "c\<lparr>pc_succ_insn := pc_next c + 2\<rparr>"] r1
    by simp_all
  have k2: "pc_first c2 = pc_first c" "insn_starts (ops c2) = insn_starts (ops c)"
    using assms(2) [unfolded decoder_sane_def, rule_format,
        of "opcode c" "c\<lparr>pc_succ_insn := pc_next c + 4\<rparr>"] r2
    by simp_all
  show "pc_first (decode_opc d16 d32 c) = pc_first c"
    by (simp add: decode_opc_def Let_def r1 r2 k1 k2 gen_exception_illegal_keeps)
  show "insn_starts (ops (decode_opc d16 d32 c)) = insn_starts (ops c)"
    by (simp add: decode_opc_def Let_def r1 r2 k1 k2 gen_exception_illegal_keeps)
qed

lemma decode_opc_succ:
  fixes c :: "'a::len word translation"
  assumes "decoder_sane d16" "decoder_sane d32"
    and "is_jmp (decode_opc d16 d32 c) = DISAS_NEXT"
  shows "pc_succ_insn (decode_opc d16 d32 c)
           = pc_next c + (if extract32 (opcode c) 0 2 \<noteq> 3 then 2 else 4)"
proof -
  obtain ok1 c1 where r1: "d16 (ucast (opcode c)) (c\<lparr>pc_succ_insn := pc_next c + 2\<rparr>) = (ok1, c1)"
    by (cases "d16 (ucast (opcode c)) (c\<lparr>pc_succ_insn := pc_next c + 2\<rparr>)")
  obtain ok2 c2 where r2: "d32 (opcode c) (c\<lparr>pc_succ_insn := pc_next c + 4\<rparr>) = (ok2, c2)"
    by (cases "d32 (opcode c) (c\<lparr>pc_succ_insn := pc_next c + 4\<rparr>)")
  have k1: "pc_succ_insn c1 = pc_next c + 2"
    using assms(1) [unfolded decoder_sane_def, rule_format,
        of "ucast (opcode c)" "c\<lparr>pc_succ_insn := pc_next c + 2\<rparr>"] r1
    by simp
  have k2: "pc_succ_insn c2 = pc_next c + 4"
    using assms(2) [unfolded decoder_sane_def, rule_format,
        of "opcode c" "c\<lparr>pc_succ_insn := pc_next c + 4\<rparr>"] r2
    by simp
  show ?thesis
    using assms(3)
    by (simp add: decode_opc_def Let_def r1 r2 k1 k2 gen_exception_illegal_keeps
        split: if_splits)
qed

lemma translate_insn_facts:
  fixes c :: "'a::len word translation"
  assumes "TARGET_PAGE_BITS < LENGTH('a)" "decoder_sane d16" "decoder_sane d32"
    and "riscv_tr_translate_insn d16 d32 cpu c = Inr c'"
  shows "pc_first c' = pc_first c"
    and "insn_starts (ops c') = insn_starts (ops c)"
    and "is_jmp c' = DISAS_NEXT \<Longrightarrow> same_page (pc_next c') (pc_first c)"
    and "is_jmp c' = DISAS_NEXT \<Longrightarrow> cpu_ldl_code cpu (pc_next c) = Some w \<Longrightarrow>
           pc_next c' = pc_next c + (if extract32 w 0 2 \<noteq> 3 then 2 else 4)"
    and "cpu_ldl_code cpu (pc_next c) = Some w \<Longrightarrow>
           is_jmp (decode_opc d16 d32 (c\<lparr>env := env_ptr cpu, opcode := w\<rparr>)) = DISAS_NEXT \<Longrightarrow>
           \<not> same_page (pc_next c') (pc_first c) \<Longrightarrow> is_jmp c' = DISAS_TOO_MANY"
proof -
  obtain w' where f: "cpu_ldl_code cpu (pc_next c) = Some w'"
    using assms(4) by (cases "cpu_ldl_code cpu (pc_next c)")
      (simp_all add: riscv_tr_translate_insn_def Let_def)
  define c0 where "c0 = c\<lparr>env := env_ptr cpu, opcode := w'\<rparr>"
  define c1 where "c1 = decode_opc d16 d32 c0"
  have e: "c' = (if is_jmp c1 = DISAS_NEXT \<and>
                   TARGET_PAGE_SIZE \<le> pc_succ_insn c1 - (pc_first c1 AND TARGET_PAGE_MASK)
                 then c1\<lparr>pc_next := pc_succ_insn c1, is_jmp := DISAS_TOO_MANY\<rparr>
                 else c1\<lparr>pc_next := pc_succ_insn c1\<rparr>)"
    using assms(4) by (auto simp add: riscv_tr_translate_insn_def Let_def f c0_def c1_def)
  have k: "pc_first c1 = pc_first c" "insn_starts (ops c1) = insn_starts (ops c)"
    using decode_opc_keeps [OF assms(2,3), of c0] by (simp_all add: c1_def c0_def)
  show "pc_first c' = pc_first c" by (simp add: e k)
  show "insn_starts (ops c') = insn_starts (ops c)" by (simp add: e k)
  show "same_page (pc_next c') (pc_first c)" if n: "is_jmp c' = DISAS_NEXT"
  proof -
    have "\<not> TARGET_PAGE_SIZE \<le> pc_succ_insn c1 - (pc_first c1 AND TARGET_PAGE_MASK)"
      using n by (simp add: e split: if_splits)
    then have "pc_succ_insn c1 - (pc_first c1 AND TARGET_PAGE_MASK) < TARGET_PAGE_SIZE"
      by simp
    then have "(pc_succ_insn c1 AND TARGET_PAGE_MASK) = (pc_first c1 AND TARGET_PAGE_MASK)"
      by (simp only: page_check [OF assms(1)])
    moreover have "pc_next c' = pc_succ_insn c1" by (simp add: e)
    ultimately show ?thesis by (simp add: same_page_def k)
  qed
  show "pc_next c' = pc_next c + (if extract32 w 0 2 \<noteq> 3 then 2 else 4)"
    if n: "is_jmp c' = DISAS_NEXT" and g: "cpu_ldl_code cpu (pc_next c) = Some w"
  proof -
    have "is_jmp c1 = DISAS_NEXT" using n by (simp add: e split: if_splits)
    then have "pc_succ_insn c1 = pc_next c0 + (if extract32 (opcode c0) 0 2 \<noteq> 3 then 2 else 4)"
      unfolding c1_def by (rule decode_opc_succ [OF assms(2,3)])
    moreover have "w' = w" using f g by simp
    moreover have "pc_next c' = pc_succ_insn c1" by (simp add: e)
    ultimately show ?thesis by (simp add: c0_def)
  qed
  show "is_jmp c' = DISAS_TOO_MANY"
    if g: "cpu_ldl_code cpu (pc_next c) = Some w"
      and n: "is_jmp (decode_opc d16 d32 (c\<lparr>env := env_ptr cpu, opcode := w\<rparr>)) = DISAS_NEXT"
      and q: "\<not> same_page (pc_next c') (pc_first c)"
  proof -
    have "w' = w" using f g by simp
    then have n1: "is_jmp c1 = DISAS_NEXT" using n by (simp add: c1_def c0_def)
    have x: "pc_next c' = pc_succ_insn c1" by (simp add: e)
    have "(pc_succ_insn c1 AND TARGET_PAGE_MASK) \<noteq> (pc_first c1 AND TARGET_PAGE_MASK)"
      using q by (simp add: same_page_def x k)
    then have "\<not> pc_succ_insn c1 - (pc_first c1 AND TARGET_PAGE_MASK) < TARGET_PAGE_SIZE"
      using page_check [OF assms(1), of "pc_succ_insn c1" "pc_first c1"] by blast
    then have "TARGET_PAGE_SIZE \<le> pc_succ_insn c1 - (pc_first c1 AND TARGET_PAGE_MASK)"
      by simp
    then show ?thesis using n1 by (simp add: e)
  qed
qed


lemma breakpoint_check_facts:
  "pc_first (snd (riscv_tr_breakpoint_check c)) = pc_first c"
  "insn_starts (ops (snd (riscv_tr_breakpoint_check c))) = insn_starts (ops c)"
  "is_jmp (snd (riscv_tr_breakpoint_check c)) = DISAS_NORETURN"
  by (simp_all add: riscv_tr_breakpoint_check_def exc_defs emit_def Let_def insn_starts_simps)

lemma translate_one_facts:
  fixes c :: "'a::len word translation"
  assumes "TARGET_PAGE_BITS < LENGTH('a)" "decoder_sane d16" "decoder_sane d32"
    and "translate_one d16 d32 cpu c = Inr c'"
  shows "pc_first c' = pc_first c"
    and "insn_starts (ops c') = insn_starts (ops c) @ [pc_next c]"
    and "is_jmp c' = DISAS_NEXT \<Longrightarrow> same_page (pc_next c') (pc_first c)"
    and "is_jmp c' = DISAS_NEXT \<Longrightarrow> cpu_ldl_code cpu (pc_next c) = Some w \<Longrightarrow>
           pc_next c' = pc_next c + (if extract32 w 0 2 \<noteq> 3 then 2 else 4)"
proof -
  define c0 where "c0 = riscv_tr_insn_start (c\<lparr>num_insns := num_insns c + 1\<rparr>)"
  have z: "pc_first c0 = pc_first c" "pc_next c0 = pc_next c"
    "insn_starts (ops c0) = insn_starts (ops c) @ [pc_next c]"
    by (simp_all add: c0_def riscv_tr_insn_start_def tcg_gen_insn_start_def emit_def
        insn_starts_simps)
  show "pc_first c' = pc_first c"
  proof (cases "pc_next c \<in> set (breakpoints cpu)")
    case True
    then have "c' = snd (riscv_tr_breakpoint_check c0)"
      using assms(4) by (simp add: translate_one_def Let_def c0_def z [unfolded c0_def])
    then show ?thesis by (simp add: breakpoint_check_facts z)
  next
    case False
    then have "riscv_tr_translate_insn d16 d32 cpu c0 = Inr c'"
      using assms(4) by (simp add: translate_one_def Let_def c0_def z [unfolded c0_def])
    from translate_insn_facts(1) [OF assms(1-3) this] show ?thesis by (simp add: z)
  qed
  show "insn_starts (ops c') = insn_starts (ops c) @ [pc_next c]"
  proof (cases "pc_next c \<in> set (breakpoints cpu)")
    case True
    then have "c' = snd (riscv_tr_breakpoint_check c0)"
      using assms(4) by (simp add: translate_one_def Let_def c0_def z [unfolded c0_def])
    then show ?thesis by (simp add: breakpoint_check_facts z)
  next
    case False
    then have "riscv_tr_translate_insn d16 d32 cpu c0 = Inr c'"
      using assms(4) by (simp add: translate_one_def Let_def c0_def z [unfolded c0_def])
    from translate_insn_facts(2) [OF assms(1-3) this] show ?thesis by (simp add: z)
  qed
  have nb: "riscv_tr_translate_insn d16 d32 cpu c0 = Inr c'" if "is_jmp c' = DISAS_NEXT"
  proof (cases "pc_next c \<in> set (breakpoints cpu)")
    case True
    then have "c' = snd (riscv_tr_breakpoint_check c0)"
      using assms(4) by (simp add: translate_one_def Let_def c0_def z [unfolded c0_def])
    then show ?thesis using that by (simp add: breakpoint_check_facts)
  next
    case False
    then show ?thesis
      using assms(4) by (simp add: translate_one_def Let_def c0_def z [unfolded c0_def])
  qed
  show "same_page (pc_next c') (pc_first c)" if n: "is_jmp c' = DISAS_NEXT"
    using translate_insn_facts(3) [OF assms(1-3) nb [OF n] n] by (simp add: z)
  show "pc_next c' = pc_next c + (if extract32 w 0 2 \<noteq> 3 then 2 else 4)"
    if n: "is_jmp c' = DISAS_NEXT" and g: "cpu_ldl_code cpu (pc_next c) = Some w"
    using translate_insn_facts(4) [OF assms(1-3) nb [OF n] n, of w] g by (simp add: z)
qed

lemma translate_loop_facts:
  fixes c :: "'a::len word translation"
  assumes "TARGET_PAGE_BITS < LENGTH('a)" "decoder_sane d16" "decoder_sane d32"
    and "translate_loop d16 d32 cpu n c = Inr c'"
  shows "pc_first c' = pc_first c \<and> is_jmp c' \<noteq> DISAS_NEXT
       \<and> (\<exists>xs. insn_starts (ops c') = insn_starts (ops c) @ pc_next c # xs
                \<and> (\<forall>a\<in>set xs. same_page a (pc_first c)))
       \<and> (\<forall>w. cpu_ldl_code cpu (pc_next c) = Some w
               \<and> \<not> same_page (pc_next c + (if extract32 w 0 2 \<noteq> 3 then 2 else 4)) (pc_first c)
             \<longrightarrow> insn_starts (ops c') = insn_starts (ops c) @ [pc_next c])"
  using assms(4)
proof (induction n arbitrary: c)
  case 0
  then obtain c1 where o: "translate_one d16 d32 cpu c = Inr c1"
    and r: "c' = (if is_jmp c1 = DISAS_NEXT then c1\<lparr>is_jmp := DISAS_TOO_MANY\<rparr> else c1)"
    by (auto split: sum.splits)
  note f = translate_one_facts [OF assms(1-3) o]
  show ?case by (simp add: r f(1,2))
next
  case (Suc n)
  then obtain c1 where o: "translate_one d16 d32 cpu c = Inr c1"
    and r: "(if is_jmp c1 = DISAS_NEXT then translate_loop d16 d32 cpu n c1 else Inr c1) = Inr c'"
    by (auto split: sum.splits)
  note f = translate_one_facts [OF assms(1-3) o]
  show ?case
  proof (cases "is_jmp c1 = DISAS_NEXT")
    case False
    then have "c' = c1" using r by simp
    then show ?thesis using False by (simp add: f(1,2))
  next
    case True
    then have l: "translate_loop d16 d32 cpu n c1 = Inr c'" using r by simp
    note ih = Suc.IH [OF l]
    from ih obtain xs where
      x: "insn_starts (ops c') = insn_starts (ops c1) @ pc_next c1 # xs"
      and p: "\<forall>a\<in>set xs. same_page a (pc_first c1)"
      by blast
    have s: "same_page (pc_next c1) (pc_first c)" by (rule f(3) [OF True])
    have a: "insn_starts (ops c') = insn_starts (ops c) @ pc_next c # (pc_next c1 # xs)"
      by (simp add: x f(2))
    have b: "\<forall>a\<in>set (pc_next c1 # xs). same_page a (pc_first c)"
      using p s by (simp add: f(1))
    have d: "\<forall>w. cpu_ldl_code cpu (pc_next c) = Some w
               \<and> \<not> same_page (pc_next c + (if extract32 w 0 2 \<noteq> 3 then 2 else 4)) (pc_first c)
             \<longrightarrow> insn_starts (ops c') = insn_starts (ops c) @ [pc_next c]"
    proof (intro allI impI, elim conjE)
      fix w
      assume g: "cpu_ldl_code cpu (pc_next c) = Some w"
        and q: "\<not> same_page (pc_next c + (if extract32 w 0 2 \<noteq> 3 then 2 else 4)) (pc_first c)"
      have "pc_next c1 = pc_next c + (if extract32 w 0 2 \<noteq> 3 then 2 else 4)"
        by (rule f(4) [OF True g])
      with s q show "insn_starts (ops c') = insn_starts (ops c) @ [pc_next c]" by simp
    qed
    have e1: "pc_first c' = pc_first c" using ih by (simp add: f(1))
    have e2: "is_jmp c' \<noteq> DISAS_NEXT" using ih by simp
    have e3: "\<exists>xs. insn_starts (ops c') = insn_starts (ops c) @ pc_next c # xs
                \<and> (\<forall>a\<in>set xs. same_page a (pc_first c))"
      using a b by blast
    from e1 e2 e3 d show ?thesis by blast
  qed
qed

lemma tb_stop_facts:
  fixes c :: "'a::len word translation"
  assumes "riscv_tr_tb_stop user_only c = Inr c'"
  shows "is_jmp c' = is_jmp c" "is_jmp c \<noteq> DISAS_NEXT"
    "insn_starts (ops c') = insn_starts (ops c)"
  using assms
  by (auto simp add: riscv_tr_tb_stop_def gen_goto_tb_def Let_def exc_defs tcg_gen_goto_tb_def
      tcg_gen_lookup_and_goto_ptr_def emit_def insn_starts_simps
      split: DisasJumpType.splits if_splits)

lemma translate_one_returns:
  fixes c :: "'a::len word translation"
  assumes "\<forall>a. cpu_ldl_code cpu a \<noteq> None"
  shows "\<exists>c'. translate_one d16 d32 cpu c = Inr c'"
proof -
  have "cpu_ldl_code cpu (pc_next c) \<noteq> None"
    using assms by blast
  then obtain w where "cpu_ldl_code cpu (pc_next c) = Some w"
    by blast
  then show ?thesis
    by (simp add: translate_one_def riscv_tr_translate_insn_def Let_def
        riscv_tr_insn_start_def tcg_gen_insn_start_def emit_def)
qed

lemma translate_loop_returns:
  fixes c :: "'a::len word translation"
  assumes "\<forall>a. cpu_ldl_code cpu a \<noteq> None"
  shows "\<exists>c'. translate_loop d16 d32 cpu n c = Inr c' \<and> is_jmp c' \<noteq> DISAS_NEXT"
proof (induction n arbitrary: c)
  case 0
  obtain c1 where "translate_one d16 d32 cpu c = Inr c1"
    using translate_one_returns [OF assms] by blast
  then show ?case by simp
next
  case (Suc n)
  obtain c1 where o: "translate_one d16 d32 cpu c = Inr c1"
    using translate_one_returns [OF assms] by blast
  show ?case
  proof (cases "is_jmp c1 = DISAS_NEXT")
    case True
    then show ?thesis using o Suc.IH [of c1] by simp
  next
    case False
    then show ?thesis using o by simp
  qed
qed

lemma tb_stop_returns:
  fixes c :: "'a::len word translation"
  assumes "is_jmp c \<noteq> DISAS_NEXT"
  shows "\<exists>c'. riscv_tr_tb_stop user_only c = Inr c'"
  using assms by (cases "is_jmp c") (simp_all add: riscv_tr_tb_stop_def)

lemma translator_loop_returns:
  fixes ctx :: "'a::len word translation"
  assumes "\<forall>a. cpu_ldl_code cpu a \<noteq> None"
  shows "\<exists>ctx'. translator_loop user_only d16 d32 cpu tb0 max_insns ctx = Inr ctx'"
proof -
  define c0 where "c0 = riscv_tr_tb_start (riscv_tr_init_disas_context
      (ctx\<lparr>tb := tb0, pc_first := tb_pc tb0, pc_next := tb_pc tb0, is_jmp := DISAS_NEXT,
            num_insns := 0, singlestep_enabled := cpu_singlestep_enabled cpu\<rparr>))"
  obtain c1 where l: "translate_loop d16 d32 cpu (max_insns - 1) c0 = Inr c1"
    and n: "is_jmp c1 \<noteq> DISAS_NEXT"
    using translate_loop_returns [OF assms] by blast
  obtain c2 where "riscv_tr_tb_stop user_only c1 = Inr c2"
    using tb_stop_returns [OF n] by blast
  then show ?thesis
    using l by (simp add: translator_loop_def Let_def c0_def)
qed

lemma decoder_sane_nop: "decoder_sane decode_nop"
  by (simp add: decoder_sane_def decode_nop_def)

section \<open>Register 0 is hardwired to zero\<close>

text \<open>
  C5. Whatever the registers hold (so after any earlier writes), \<open>gen_get_gpr\<close> of
  register 0 gives the constant 0 and \<open>gen_set_gpr\<close> to register 0 emits nothing and
  changes no state; for every other register index \<open>1 \<le> i < 32\<close> the two are the plain
  read of, and the plain write to, \<open>env->gpr[i]\<close>.
\<close>

theorem gpr_zero_hardwired:
  fixes s :: "'a::len word translation" and r :: "'a word tcg_state"
  shows "exec_ops (emitted (gen_get_gpr t 0) s) r = tcg_write t 0 r
       \<and> gen_set_gpr 0 t s = s
       \<and> exec_ops (emitted (gen_set_gpr 0 t) s) r = Continue r
       \<and> (1 \<le> i \<and> i < 32 \<longrightarrow>
            exec_ops (emitted (gen_get_gpr t i) s) r = tcg_write t (gpr r i) r
          \<and> (\<forall>x. tcg_read t r = Some x \<longrightarrow>
                exec_ops (emitted (gen_set_gpr i t) s) r = Continue (r\<lparr>gpr := (gpr r)(i := x)\<rparr>)))"
  by (auto simp: gen_get_gpr_def gen_set_gpr_def tcg_gen_movi_tl_def tcg_gen_mov_tl_def
      emitted_def emit_def cpu_gpr_def with_val_def and_then_def split: exec_result.splits)



theorem gpr_zero_hardwired_witness:
  "(1::int) \<le> 5 \<and> (5::int) < 32
   \<and> tcg_read (TCGv_temp 0) (ex_state 7 9) = Some 7
   \<and> exec_ops (emitted (gen_set_gpr 5 (TCGv_temp 0)) (ex_ctx 0x1000 {RVC} 0)) (ex_state 7 9)
       = Continue ((ex_state 7 9)\<lparr>gpr := (gpr (ex_state 7 9))(5 := 7)\<rparr>)
   \<and> exec_ops (emitted (gen_get_gpr (TCGv_temp 1) 5) (ex_ctx 0x1000 {RVC} 0)) (ex_state 7 9)
       = tcg_write (TCGv_temp 1) (gpr (ex_state 7 9) 5) (ex_state 7 9)
   \<and> exec_ops (emitted (gen_get_gpr (TCGv_temp 1) 0) (ex_ctx 0x1000 {RVC} 0)) (ex_state 7 9)
       = tcg_write (TCGv_temp 1) 0 (ex_state 7 9)
   \<and> exec_ops (emitted (gen_set_gpr 0 (TCGv_temp 0)) (ex_ctx 0x1000 {RVC} 0)) (ex_state 7 9)
       = Continue (ex_state 7 9)"
proof -
  have t: "tcg_read (TCGv_temp 0) (ex_state 7 9) = Some 7"
    by (simp add: ex_state_def)
  show ?thesis
    using gpr_zero_hardwired [of "TCGv_temp 1" "ex_ctx 0x1000 {RVC} 0" "ex_state 7 9" 5]
      gpr_zero_hardwired [of "TCGv_temp 0" "ex_ctx 0x1000 {RVC} 0" "ex_state 7 9" 5] t
    by simp
qed

section \<open>Division\<close>

text \<open>
  C2. \<open>gen_div\<close> and \<open>gen_divu\<close> are called as \<open>func(source1, source1, source2)\<close> on two
  distinct temporaries (\<open>gen_arith\<close>), so the operands are temporaries \<open>i \<noteq> j\<close> allocated
  before the call, holding \<open>a\<close> and \<open>b\<close>; the result goes to any such temporary \<open>k\<close>.
  For a register width of at least two bits (it is 32 or 64), the emitted sequence runs
  to its end without a host fault and leaves in \<open>k\<close>: for the signed divide, \<open>-1\<close> when
  \<open>b = 0\<close>, the dividend when it is the minimum value and \<open>b = -1\<close>, and otherwise the
  truncating quotient of the signed values, which is exact (it fits the width); for the
  unsigned divide, all ones when \<open>b = 0\<close> and otherwise the quotient of the unsigned values.
\<close>

theorem divide_edge_cases:
  fixes ctx :: "'a::len word translation" and r :: "'a word tcg_state"
  assumes "1 < LENGTH('a)" and "i \<noteq> j"
    and "i < nb_temps ctx" and "j < nb_temps ctx" and "k < nb_temps ctx"
    and "temps r i = a" and "temps r j = b"
  shows "result_temp k (exec_ops (emitted (gen_div (TCGv_temp k) (TCGv_temp i) (TCGv_temp j)) ctx) r)
           = Some (if b = 0 then - 1
                   else if a = min_signed \<and> b = - 1 then a
                   else word_of_int (sint a sdiv sint b))
       \<and> result_temp k (exec_ops (emitted (gen_divu (TCGv_temp k) (TCGv_temp i) (TCGv_temp j)) ctx) r)
           = Some (if b = 0 then NOT 0 else a div b)
       \<and> (\<not> (a = min_signed \<and> b = - 1) \<longrightarrow>
            sint (word_of_int (sint a sdiv sint b) :: 'a word) = sint a sdiv sint b)
       \<and> uint (a div b) = uint a div uint b"
proof -
  have d: "result_temp k (exec_ops (emitted (gen_div (TCGv_temp k) (TCGv_temp i) (TCGv_temp j)) ctx) r)
           = Some (if b = 0 then - 1
                   else if a = min_signed \<and> b = - 1 then a
                   else word_of_int (sint a sdiv sint b))"
    using exec_gen_div [OF assms(1-5), of r] assms(6,7) by simp
  have u: "result_temp k (exec_ops (emitted (gen_divu (TCGv_temp k) (TCGv_temp i) (TCGv_temp j)) ctx) r)
           = Some (if b = 0 then NOT 0 else a div b)"
    using exec_gen_divu [OF assms(1-5), of r] assms(6,7) by simp
  have e: "\<not> (a = min_signed \<and> b = - 1) \<longrightarrow>
            sint (word_of_int (sint a sdiv sint b) :: 'a word) = sint a sdiv sint b"
    using sint_sdiv_exact [of a b] by blast
  have q: "uint (a div b) = uint a div uint b"
    by (rule uint_div)
  from d u e q show ?thesis by blast
qed

theorem divide_edge_cases_witness:
  "result_temp 2 (exec_ops (emitted (gen_div (TCGv_temp 2) (TCGv_temp 0) (TCGv_temp 1))
       (ex_ctx 0x1000 {RVC} 0)) (ex_state 0x8000000000000000 (- 1))) = Some 0x8000000000000000
   \<and> result_temp 2 (exec_ops (emitted (gen_divu (TCGv_temp 2) (TCGv_temp 0) (TCGv_temp 1))
       (ex_ctx 0x1000 {RVC} 0)) (ex_state 0x8000000000000000 (- 1))) = Some 0
   \<and> result_temp 0 (exec_ops (emitted (gen_div (TCGv_temp 0) (TCGv_temp 0) (TCGv_temp 1))
       (ex_ctx 0x1000 {RVC} 0)) (ex_state 5 0)) = Some (- 1)
   \<and> result_temp 0 (exec_ops (emitted (gen_divu (TCGv_temp 0) (TCGv_temp 0) (TCGv_temp 1))
       (ex_ctx 0x1000 {RVC} 0)) (ex_state 5 0)) = Some 0xFFFFFFFFFFFFFFFF
   \<and> result_temp 0 (exec_ops (emitted (gen_div (TCGv_temp 0) (TCGv_temp 0) (TCGv_temp 1))
       (ex_ctx 0x1000 {RVC} 0)) (ex_state (- 7) 2)) = Some (- 3)
   \<and> result_temp 0 (exec_ops (emitted (gen_divu (TCGv_temp 0) (TCGv_temp 0) (TCGv_temp 1))
       (ex_ctx 0x1000 {RVC} 0)) (ex_state 7 2)) = Some 3"
proof -
  have n: "nb_temps (ex_ctx 0x1000 {RVC} 0) = 3" by (simp add: ex_ctx_def)
  have l: "1 < LENGTH(64)" by simp
  have m: "(min_signed :: 64 word) = 0x8000000000000000" by (simp add: min_signed_def)
  have t: "temps (ex_state x y) 0 = x" "temps (ex_state x y) (Suc 0) = y" for x y
    by (simp_all add: ex_state_def)
  have s: "(word_of_int (sint (- 7 :: 64 word) sdiv sint (2 :: 64 word)) :: 64 word) = - 3"
    by (simp add: signed_divide_int_def)
  show ?thesis
    using divide_edge_cases [OF l, of 0 1 "ex_ctx 0x1000 {RVC} 0" 2 "ex_state 0x8000000000000000 (- 1)"
        "0x8000000000000000" "- 1"]
      divide_edge_cases [OF l, of 0 1 "ex_ctx 0x1000 {RVC} 0" 0 "ex_state 5 0" 5 0]
      divide_edge_cases [OF l, of 0 1 "ex_ctx 0x1000 {RVC} 0" 0 "ex_state (- 7) 2" "- 7" 2]
      divide_edge_cases [OF l, of 0 1 "ex_ctx 0x1000 {RVC} 0" 0 "ex_state 7 2" 7 2]
    by (simp add: n t m s)
qed

section \<open>Remainder\<close>

text \<open>
  C3. Under the same conditions, the signed and the unsigned remainder sequences run to
  their end without a host fault and leave in \<open>k\<close>: the dividend when \<open>b = 0\<close>; for the
  signed remainder 0 when the dividend is the minimum value and \<open>b = -1\<close>; otherwise the
  remainder of the truncating (signed) or of the unsigned division, which is exact. The
  last two conjuncts say how the signed result arises: the final selection looks at
  \<open>b = 0\<close> alone, choosing between the dividend and the remainder by the sanitized
  divisor (1 on overflow and on \<open>b = 0\<close>), and that remainder is itself 0 on overflow.
\<close>

theorem remainder_edge_cases:
  fixes ctx :: "'a::len word translation" and r :: "'a word tcg_state"
  assumes "1 < LENGTH('a)" and "i \<noteq> j"
    and "i < nb_temps ctx" and "j < nb_temps ctx" and "k < nb_temps ctx"
    and "temps r i = a" and "temps r j = b"
  shows "result_temp k (exec_ops (emitted (gen_rem (TCGv_temp k) (TCGv_temp i) (TCGv_temp j)) ctx) r)
           = Some (if b = 0 then a
                   else if a = min_signed \<and> b = - 1 then 0
                   else word_of_int (sint a smod sint b))
       \<and> result_temp k (exec_ops (emitted (gen_remu (TCGv_temp k) (TCGv_temp i) (TCGv_temp j)) ctx) r)
           = Some (if b = 0 then a else a mod b)
       \<and> sint (word_of_int (sint a smod sint b) :: 'a word) = sint a smod sint b
       \<and> uint (a mod b) = uint a mod uint b
       \<and> result_temp k (exec_ops (emitted (gen_rem (TCGv_temp k) (TCGv_temp i) (TCGv_temp j)) ctx) r)
           = Some (if b = 0 then a
                   else word_of_int (sint a smod
                          sint (if (a = min_signed \<and> b = - 1) \<or> b = 0 then 1 else b)))
       \<and> (word_of_int (sint (min_signed :: 'a word) smod sint (1 :: 'a word)) :: 'a word) = 0"
proof -
  have one: "sint (1 :: 'a word) = 1"
    using assms(1) by simp
  have z: "(word_of_int (sint (min_signed :: 'a word) smod sint (1 :: 'a word)) :: 'a word) = 0"
    by (simp add: one smod_one)
  have g: "result_temp k (exec_ops (emitted (gen_rem (TCGv_temp k) (TCGv_temp i) (TCGv_temp j)) ctx) r)
           = Some (if b = 0 then a
                   else word_of_int (sint a smod
                          sint (if (a = min_signed \<and> b = - 1) \<or> b = 0 then 1 else b)))"
    using exec_gen_rem [OF assms(1-5), of r] assms(6,7) by simp
  have d: "result_temp k (exec_ops (emitted (gen_rem (TCGv_temp k) (TCGv_temp i) (TCGv_temp j)) ctx) r)
           = Some (if b = 0 then a
                   else if a = min_signed \<and> b = - 1 then 0
                   else word_of_int (sint a smod sint b))"
    unfolding g by (simp add: one smod_one)
  have u: "result_temp k (exec_ops (emitted (gen_remu (TCGv_temp k) (TCGv_temp i) (TCGv_temp j)) ctx) r)
           = Some (if b = 0 then a else a mod b)"
    using exec_gen_remu [OF assms(1-5), of r] assms(6,7) by simp
  have e: "sint (word_of_int (sint a smod sint b) :: 'a word) = sint a smod sint b"
    by (rule sint_smod_exact)
  have q: "uint (a mod b) = uint a mod uint b"
    by (rule uint_mod)
  from d u e q g z show ?thesis by blast
qed

theorem remainder_edge_cases_witness:
  "result_temp 2 (exec_ops (emitted (gen_rem (TCGv_temp 2) (TCGv_temp 0) (TCGv_temp 1))
       (ex_ctx 0x1000 {RVC} 0)) (ex_state 0x8000000000000000 (- 1))) = Some 0
   \<and> result_temp 0 (exec_ops (emitted (gen_rem (TCGv_temp 0) (TCGv_temp 0) (TCGv_temp 1))
       (ex_ctx 0x1000 {RVC} 0)) (ex_state 5 0)) = Some 5
   \<and> result_temp 0 (exec_ops (emitted (gen_remu (TCGv_temp 0) (TCGv_temp 0) (TCGv_temp 1))
       (ex_ctx 0x1000 {RVC} 0)) (ex_state 5 0)) = Some 5
   \<and> result_temp 0 (exec_ops (emitted (gen_rem (TCGv_temp 0) (TCGv_temp 0) (TCGv_temp 1))
       (ex_ctx 0x1000 {RVC} 0)) (ex_state (- 7) 2)) = Some (- 1)
   \<and> result_temp 0 (exec_ops (emitted (gen_remu (TCGv_temp 0) (TCGv_temp 0) (TCGv_temp 1))
       (ex_ctx 0x1000 {RVC} 0)) (ex_state 7 2)) = Some 1"
proof -
  have n: "nb_temps (ex_ctx 0x1000 {RVC} 0) = 3" by (simp add: ex_ctx_def)
  have l: "1 < LENGTH(64)" by simp
  have m: "(min_signed :: 64 word) = 0x8000000000000000" by (simp add: min_signed_def)
  have t: "temps (ex_state x y) 0 = x" "temps (ex_state x y) (Suc 0) = y" for x y
    by (simp_all add: ex_state_def)
  have s: "(word_of_int (sint (- 7 :: 64 word) smod sint (2 :: 64 word)) :: 64 word) = - 1"
    by (simp add: signed_modulo_int_def)
  show ?thesis
    using remainder_edge_cases [OF l, of 0 1 "ex_ctx 0x1000 {RVC} 0" 2 "ex_state 0x8000000000000000 (- 1)"
        "0x8000000000000000" "- 1"]
      remainder_edge_cases [OF l, of 0 1 "ex_ctx 0x1000 {RVC} 0" 0 "ex_state 5 0" 5 0]
      remainder_edge_cases [OF l, of 0 1 "ex_ctx 0x1000 {RVC} 0" 0 "ex_state (- 7) 2" "- 7" 2]
      remainder_edge_cases [OF l, of 0 1 "ex_ctx 0x1000 {RVC} 0" 0 "ex_state 7 2" 7 2]
    by (simp add: n t m s)
qed

section \<open>Mixed-sign multiply-high\<close>

text \<open>
  C4. For operands in temporaries \<open>i\<close> and \<open>j\<close> allocated before the call, holding \<open>a\<close>
  (read as signed) and \<open>b\<close> (read as unsigned), \<open>gen_mulhsu\<close> leaves in \<open>k\<close> the upper
  half of the exact product \<open>sint a * uint b\<close>: the product divided by
  \<open>2 ^ TARGET_LONG_BITS\<close>, rounding down, which fits the register as a signed value.
  The sequence computes it as the upper half of the unsigned product minus \<open>b\<close> masked
  by the sign of \<open>a\<close> (\<open>a\<close> shifted right arithmetically by \<open>TARGET_LONG_BITS - 1\<close>).
\<close>

theorem mulhsu_upper_half:
  fixes ctx :: "'a::len word translation" and r :: "'a word tcg_state"
  assumes "i < nb_temps ctx" and "j < nb_temps ctx" and "k < nb_temps ctx"
    and "temps r i = a" and "temps r j = b"
  shows "result_temp k (exec_ops (emitted (gen_mulhsu (TCGv_temp k) (TCGv_temp i) (TCGv_temp j)) ctx) r)
           = Some (word_of_int ((sint a * uint b) div 2 ^ LENGTH('a)))
       \<and> sint (word_of_int ((sint a * uint b) div 2 ^ LENGTH('a)) :: 'a word)
           = (sint a * uint b) div 2 ^ LENGTH('a)
       \<and> result_temp k (exec_ops (emitted (gen_mulhsu (TCGv_temp k) (TCGv_temp i) (TCGv_temp j)) ctx) r)
           = Some (word_of_int ((uint a * uint b) div 2 ^ LENGTH('a))
                   - (signed_drop_bit (LENGTH('a) - 1) a AND b))"
proof -
  have e: "result_temp k (exec_ops (emitted (gen_mulhsu (TCGv_temp k) (TCGv_temp i) (TCGv_temp j)) ctx) r)
           = Some (word_of_int ((uint a * uint b) div 2 ^ LENGTH('a))
                   - (signed_drop_bit (LENGTH('a) - 1) a AND b))"
    using exec_gen_mulhsu [OF assms(1-3), of r] assms(4,5) by simp
  have u: "result_temp k (exec_ops (emitted (gen_mulhsu (TCGv_temp k) (TCGv_temp i) (TCGv_temp j)) ctx) r)
           = Some (word_of_int ((sint a * uint b) div 2 ^ LENGTH('a)))"
    unfolding e by (simp only: mulhsu_word)
  from u sint_mulhsu_exact [of a b] e show ?thesis by blast
qed

theorem mulhsu_upper_half_witness:
  "result_temp 2 (exec_ops (emitted (gen_mulhsu (TCGv_temp 2) (TCGv_temp 0) (TCGv_temp 1))
       (ex_ctx 0x1000 {RVC} 0)) (ex_state 0xFFFFFFFFFFFFFFFF 0xFFFFFFFFFFFFFFFF))
       = Some 0xFFFFFFFFFFFFFFFF
   \<and> result_temp 0 (exec_ops (emitted (gen_mulhsu (TCGv_temp 0) (TCGv_temp 0) (TCGv_temp 1))
       (ex_ctx 0x1000 {RVC} 0)) (ex_state 0x8000000000000000 0xFFFFFFFFFFFFFFFF))
       = Some 0x8000000000000000
   \<and> result_temp 0 (exec_ops (emitted (gen_mulhsu (TCGv_temp 0) (TCGv_temp 0) (TCGv_temp 1))
       (ex_ctx 0x1000 {RVC} 0)) (ex_state 0x7FFFFFFFFFFFFFFF 0xFFFFFFFFFFFFFFFF))
       = Some 0x7FFFFFFFFFFFFFFE
   \<and> result_temp 0 (exec_ops (emitted (gen_mulhsu (TCGv_temp 0) (TCGv_temp 0) (TCGv_temp 1))
       (ex_ctx 0x1000 {RVC} 0)) (ex_state 0 0xFFFFFFFFFFFFFFFF)) = Some 0"
proof -
  have n: "nb_temps (ex_ctx 0x1000 {RVC} 0) = 3" by (simp add: ex_ctx_def)
  have t: "temps (ex_state x y) 0 = x" "temps (ex_state x y) (Suc 0) = y" for x y
    by (simp_all add: ex_state_def)
  show ?thesis
    using mulhsu_upper_half [of 0 "ex_ctx 0x1000 {RVC} 0" 1 2
        "ex_state 0xFFFFFFFFFFFFFFFF 0xFFFFFFFFFFFFFFFF" "0xFFFFFFFFFFFFFFFF" "0xFFFFFFFFFFFFFFFF"]
      mulhsu_upper_half [of 0 "ex_ctx 0x1000 {RVC} 0" 1 0
        "ex_state 0x8000000000000000 0xFFFFFFFFFFFFFFFF" "0x8000000000000000" "0xFFFFFFFFFFFFFFFF"]
      mulhsu_upper_half [of 0 "ex_ctx 0x1000 {RVC} 0" 1 0
        "ex_state 0x7FFFFFFFFFFFFFFF 0xFFFFFFFFFFFFFFFF" "0x7FFFFFFFFFFFFFFF" "0xFFFFFFFFFFFFFFFF"]
      mulhsu_upper_half [of 0 "ex_ctx 0x1000 {RVC} 0" 1 0 "ex_state 0 0xFFFFFFFFFFFFFFFF" 0
        "0xFFFFFFFFFFFFFFFF"]
    by (simp add: n t)
qed

section \<open>Misaligned jump target\<close>

text \<open>
  C1. As the claim states it, the fault address recorded would be the misaligned target
  \<open>pc + imm\<close>. \<open>generate_exception_mbadaddr\<close> takes no address: it stores \<open>cpu_pc\<close>,
  which it has just set to \<open>pc_next\<close>, the address of the jump itself. For the jump at
  \<open>0x1000\<close> with immediate 2 and no RVC, the field holds \<open>0x1000\<close>, not \<open>0x1002\<close>.
\<close>

theorem jal_badaddr_counterexample:
  "\<not> riscv_has_ext (ex_env {}) RVC
   \<and> (pc_next (ex_ctx 0x1000 {} 0x0020006F) + 2) AND 3 \<noteq> 0
   \<and> badaddr_of (exec_ops (emitted (gen_jal False (ex_env {}) 0 2) (ex_ctx 0x1000 {} 0x0020006F))
        (ex_state 0 0)) = Some 0x1000
   \<and> badaddr_of (exec_ops (emitted (gen_jal False (ex_env {}) 0 2) (ex_ctx 0x1000 {} 0x0020006F))
        (ex_state 0 0)) \<noteq> Some (pc_next (ex_ctx 0x1000 {} 0x0020006F) + 2)"
  by (simp add: gen_jal_def exc_defs emitted_def emit_def Let_def and_then_def with_val_def
      riscv_has_ext_def ex_env_def ex_ctx_def ex_state_def badaddr_of_def)

text \<open>
  C1, amended. When RVC is absent and the target \<open>pc_next + imm\<close> has one of its low two
  bits set, \<open>gen_jal\<close> changes nothing of the translation state but the exit reason,
  which becomes \<open>DISAS_NORETURN\<close>, and the emitted operations, to which it appends
  exactly the three of the exception: no write to \<open>cpu_gpr[rd]\<close>, no jump. Running them
  raises \<open>RISCV_EXCP_INST_ADDR_MIS\<close> with the guest PC and the fault-address field both
  set to the address of the jump instruction, and every register as it was.
\<close>

theorem jal_misaligned:
  fixes ctx :: "'a::len word translation" and r :: "'a word tcg_state"
  assumes "\<not> riscv_has_ext env' RVC" and "(pc_next ctx + imm) AND 3 \<noteq> 0"
  shows "gen_jal user_only env' rd imm ctx
           = ctx\<lparr>is_jmp := DISAS_NORETURN,
                 ops := ops ctx @ [Op_movi cpu_pc (pc_next ctx), Op_st_badaddr cpu_pc,
                                   Op_raise_exception RISCV_EXCP_INST_ADDR_MIS]\<rparr>
       \<and> exec_ops (emitted (gen_jal user_only env' rd imm) ctx) r
           = Exception RISCV_EXCP_INST_ADDR_MIS (r\<lparr>pc := pc_next ctx, badaddr := pc_next ctx\<rparr>)"
  using assms
  by (simp add: gen_jal_def exc_defs emitted_def emit_def Let_def and_then_def with_val_def)

theorem jal_misaligned_witness:
  "\<not> riscv_has_ext (ex_env {}) RVC
   \<and> (pc_next (ex_ctx 0x1000 {} 0x0020006F) + 2) AND 3 \<noteq> 0
   \<and> gen_jal False (ex_env {}) 1 2 (ex_ctx 0x1000 {} 0x0020006F)
       = (ex_ctx 0x1000 {} 0x0020006F)\<lparr>is_jmp := DISAS_NORETURN,
           ops := ops (ex_ctx 0x1000 {} 0x0020006F)
                  @ [Op_movi cpu_pc 0x1000, Op_st_badaddr cpu_pc,
                     Op_raise_exception RISCV_EXCP_INST_ADDR_MIS]\<rparr>
   \<and> exec_ops (emitted (gen_jal False (ex_env {}) 1 2) (ex_ctx 0x1000 {} 0x0020006F)) (ex_state 0 0)
       = Exception RISCV_EXCP_INST_ADDR_MIS ((ex_state 0 0)\<lparr>pc := 0x1000, badaddr := 0x1000\<rparr>)"
proof -
  have h: "\<not> riscv_has_ext (ex_env {}) RVC"
    by (simp add: riscv_has_ext_def ex_env_def)
  have m: "(pc_next (ex_ctx 0x1000 {} 0x0020006F) + 2) AND 3 \<noteq> 0"
    by (simp add: ex_ctx_def)
  have p: "pc_next (ex_ctx 0x1000 {} 0x0020006F) = 0x1000"
    by (simp add: ex_ctx_def)
  show ?thesis
    using jal_misaligned [OF h m, of False 1 "ex_state 0 0"] h m
    by (simp add: p)
qed

section \<open>The rounding-mode cache\<close>

text \<open>
  C6. \<open>riscv_tr_init_disas_context\<close> sets the cache \<open>frm\<close> to \<open>-1\<close> whatever it held. A
  request equal to the cache leaves the state as it is and emits nothing; a request
  that differs emits exactly one install and sets the cache to it. Hence a sequence of
  requests \<open>rms\<close> emits one install for each request that differs from the one before
  it (from the cache, for the first). The rounding mode of a floating instruction is a
  3-bit field, so it is never \<open>-1\<close>: the first one of a block installs, and two equal
  ones install once.
\<close>

theorem rounding_mode_cache:
  fixes ctx :: "'a::len word translation"
  shows "frm (riscv_tr_init_disas_context ctx) = - 1
       \<and> (frm ctx = rm \<longrightarrow> gen_set_rm rm ctx = ctx \<and> emitted (gen_set_rm rm) ctx = [])
       \<and> (frm ctx \<noteq> rm \<longrightarrow>
            emitted (gen_set_rm rm) ctx = [Op_set_rounding_mode rm] \<and> frm (gen_set_rm rm ctx) = rm)
       \<and> emitted (fold gen_set_rm rms) ctx
            = map Op_set_rounding_mode (tl (remdups_adj (frm ctx # rms)))
       \<and> frm (fold gen_set_rm rms ctx) = last (frm ctx # rms)
       \<and> (rm \<noteq> - 1 \<longrightarrow>
            emitted (gen_set_rm rm) (riscv_tr_init_disas_context ctx) = [Op_set_rounding_mode rm]
          \<and> emitted (fold gen_set_rm [rm, rm]) (riscv_tr_init_disas_context ctx)
              = [Op_set_rounding_mode rm])"
proof -
  have i: "frm (riscv_tr_init_disas_context ctx) = - 1"
    by (simp add: riscv_tr_init_disas_context_def)
  have e: "emitted (gen_set_rm rm) c = (if frm c = rm then [] else [Op_set_rounding_mode rm])"
    for c :: "'a word translation" and rm
    by (simp add: emitted_def ops_gen_set_rm)
  have f: "emitted (fold gen_set_rm xs) c = map Op_set_rounding_mode (tl (remdups_adj (frm c # xs)))"
    for c :: "'a word translation" and xs
    by (simp add: emitted_def ops_fold_gen_set_rm)
  have s: "frm ctx = rm \<longrightarrow> gen_set_rm rm ctx = ctx"
    by (simp add: gen_set_rm_def)
  have t: "rm \<noteq> - 1 \<longrightarrow>
      emitted (fold gen_set_rm [rm, rm]) (riscv_tr_init_disas_context ctx) = [Op_set_rounding_mode rm]"
    unfolding f i by simp
  have u: "rm \<noteq> - 1 \<longrightarrow>
      emitted (gen_set_rm rm) (riscv_tr_init_disas_context ctx) = [Op_set_rounding_mode rm]"
    unfolding e i by simp
  have v: "frm ctx \<noteq> rm \<longrightarrow>
      emitted (gen_set_rm rm) ctx = [Op_set_rounding_mode rm] \<and> frm (gen_set_rm rm ctx) = rm"
    by (simp add: e frm_gen_set_rm)
  have w: "frm ctx = rm \<longrightarrow> gen_set_rm rm ctx = ctx \<and> emitted (gen_set_rm rm) ctx = []"
    by (simp add: e s)
  from i w v f [of rms ctx] frm_fold_gen_set_rm [of rms ctx] u t show ?thesis
    by blast
qed

theorem rounding_mode_cache_witness:
  "frm (ex_ctx 0x1000 {RVF} 0) \<noteq> 3
   \<and> emitted (gen_set_rm 3) (ex_ctx 0x1000 {RVF} 0) = [Op_set_rounding_mode 3]
   \<and> frm (gen_set_rm 3 (ex_ctx 0x1000 {RVF} 0)) = 3
   \<and> gen_set_rm 3 (gen_set_rm 3 (ex_ctx 0x1000 {RVF} 0)) = gen_set_rm 3 (ex_ctx 0x1000 {RVF} 0)
   \<and> emitted (fold gen_set_rm [1, 1, 2, 2, 1]) (ex_ctx 0x1000 {RVF} 0)
       = [Op_set_rounding_mode 1, Op_set_rounding_mode 2, Op_set_rounding_mode 1]
   \<and> (3 :: int) \<noteq> - 1
   \<and> emitted (fold gen_set_rm [3, 3]) (riscv_tr_init_disas_context (gen_set_rm 3 (ex_ctx 0x1000 {RVF} 0)))
       = [Op_set_rounding_mode 3]"
proof -
  have f: "frm (ex_ctx 0x1000 {RVF} 0) = - 1"
    by (simp add: ex_ctx_def)
  have g: "frm (gen_set_rm 3 (ex_ctx 0x1000 {RVF} 0)) = 3"
    by (rule frm_gen_set_rm)
  show ?thesis
    using rounding_mode_cache [of "ex_ctx 0x1000 {RVF} 0" 3 "[1, 1, 2, 2, 1]"]
      rounding_mode_cache [of "gen_set_rm 3 (ex_ctx 0x1000 {RVF} 0)" 3 "[]"]
    by (simp add: f g)
qed

section \<open>Decoding sets the successor address first\<close>

text \<open>
  C8. As the claim states it, every opcode whose low two bits are not \<open>0b11\<close> gets
  \<open>pc_succ_insn = pc + 2\<close>. When RVC is absent, \<open>decode_opc\<close> raises the illegal
  instruction exception at once and assigns nothing: for the compressed word \<open>0x0001\<close>
  at \<open>0x1000\<close>, \<open>pc_succ_insn\<close> stays \<open>0x1000\<close>.
\<close>

theorem pc_succ_insn_counterexample:
  "extract32 (opcode (ex_ctx 0x1000 {} 0x0001)) 0 2 \<noteq> 3
   \<and> pc_succ_insn (decode_opc decode_none decode_none (ex_ctx 0x1000 {} 0x0001)) = 0x1000
   \<and> pc_succ_insn (decode_opc decode_none decode_none (ex_ctx 0x1000 {} 0x0001))
        \<noteq> pc_next (ex_ctx 0x1000 {} 0x0001) + 2"
  by (simp add: decode_opc_def decode_none_def exc_defs emit_def Let_def extract32_def
      riscv_has_ext_def ex_ctx_def ex_env_def)

text \<open>
  C8, amended. For an opcode with low bits \<open>0b11\<close>, and for a compressed one when RVC is
  present, \<open>decode_opc\<close> is the decoder (and with it the translator) applied to the
  state in which \<open>pc_succ_insn\<close> already is \<open>pc_next + 4\<close>, respectively \<open>pc_next + 2\<close>,
  followed by the illegal-instruction exception when no pattern matched. For a
  compressed opcode without RVC it is the illegal-instruction exception alone and
  \<open>pc_succ_insn\<close> keeps its value. So a jump-and-link translated by \<open>gen_jal\<close> writes
  \<open>pc_next + 4\<close> to its link register, and decoders that leave \<open>pc_succ_insn\<close> alone
  leave it at the address plus the length.
\<close>

theorem pc_succ_insn_before_translator:
  fixes ctx :: "'a::len word translation"
  shows "(extract32 (opcode ctx) 0 2 = 3 \<longrightarrow>
            decode_opc d16 d32 ctx
              = (case d32 (opcode ctx) (ctx\<lparr>pc_succ_insn := pc_next ctx + 4\<rparr>) of
                   (ok, c) \<Rightarrow> if ok then c else gen_exception_illegal c))
       \<and> (extract32 (opcode ctx) 0 2 \<noteq> 3 \<and> riscv_has_ext (env ctx) RVC \<longrightarrow>
            decode_opc d16 d32 ctx
              = (case d16 (ucast (opcode ctx)) (ctx\<lparr>pc_succ_insn := pc_next ctx + 2\<rparr>) of
                   (ok, c) \<Rightarrow> if ok then c else gen_exception_illegal c))
       \<and> (extract32 (opcode ctx) 0 2 \<noteq> 3 \<and> \<not> riscv_has_ext (env ctx) RVC \<longrightarrow>
            decode_opc d16 d32 ctx = gen_exception_illegal ctx
          \<and> pc_succ_insn (decode_opc d16 d32 ctx) = pc_succ_insn ctx)
       \<and> (extract32 (opcode ctx) 0 2 = 3 \<and> rd \<noteq> 0
            \<and> (riscv_has_ext (env ctx) RVC \<or> (pc_next ctx + imm) AND 3 = 0) \<longrightarrow>
            hd (emitted (decode_opc d16 (decode_jal user_only rd imm)) ctx)
              = Op_movi (cpu_gpr rd) (pc_next ctx + 4))
       \<and> (extract32 (opcode ctx) 0 2 = 3
            \<and> (\<forall>insn c. pc_succ_insn (snd (d32 insn c)) = pc_succ_insn c) \<longrightarrow>
            pc_succ_insn (decode_opc d16 d32 ctx) = pc_next ctx + 4)
       \<and> (extract32 (opcode ctx) 0 2 \<noteq> 3 \<and> riscv_has_ext (env ctx) RVC
            \<and> (\<forall>insn c. pc_succ_insn (snd (d16 insn c)) = pc_succ_insn c) \<longrightarrow>
            pc_succ_insn (decode_opc d16 d32 ctx) = pc_next ctx + 2)"
proof -
  have p: "pc_succ_insn (gen_exception_illegal c) = pc_succ_insn c" for c :: "'a word translation"
    by (simp add: exc_defs emit_def Let_def)
  have a: "extract32 (opcode ctx) 0 2 = 3 \<longrightarrow>
            decode_opc d16 d32 ctx
              = (case d32 (opcode ctx) (ctx\<lparr>pc_succ_insn := pc_next ctx + 4\<rparr>) of
                   (ok, c) \<Rightarrow> if ok then c else gen_exception_illegal c)"
    by (auto simp add: decode_opc_def Let_def split: prod.splits)
  have b: "extract32 (opcode ctx) 0 2 \<noteq> 3 \<and> riscv_has_ext (env ctx) RVC \<longrightarrow>
            decode_opc d16 d32 ctx
              = (case d16 (ucast (opcode ctx)) (ctx\<lparr>pc_succ_insn := pc_next ctx + 2\<rparr>) of
                   (ok, c) \<Rightarrow> if ok then c else gen_exception_illegal c)"
    by (auto simp add: decode_opc_def Let_def split: prod.splits)
  have c: "extract32 (opcode ctx) 0 2 \<noteq> 3 \<and> \<not> riscv_has_ext (env ctx) RVC \<longrightarrow>
            decode_opc d16 d32 ctx = gen_exception_illegal ctx
          \<and> pc_succ_insn (decode_opc d16 d32 ctx) = pc_succ_insn ctx"
    by (simp add: decode_opc_def p)
  have d: "extract32 (opcode ctx) 0 2 = 3 \<and> rd \<noteq> 0
            \<and> (riscv_has_ext (env ctx) RVC \<or> (pc_next ctx + imm) AND 3 = 0) \<longrightarrow>
            hd (emitted (decode_opc d16 (decode_jal user_only rd imm)) ctx)
              = Op_movi (cpu_gpr rd) (pc_next ctx + 4)"
    by (auto simp add: decode_opc_def decode_jal_def gen_jal_def gen_goto_tb_def Let_def exc_defs
        tcg_gen_goto_tb_def tcg_gen_lookup_and_goto_ptr_def emitted_def emit_def)
  have e: "extract32 (opcode ctx) 0 2 = 3
            \<and> (\<forall>insn c. pc_succ_insn (snd (d32 insn c)) = pc_succ_insn c) \<longrightarrow>
            pc_succ_insn (decode_opc d16 d32 ctx) = pc_next ctx + 4"
  proof (intro impI, elim conjE)
    assume h: "extract32 (opcode ctx) 0 2 = 3"
      and k: "\<forall>insn c. pc_succ_insn (snd (d32 insn c)) = pc_succ_insn c"
    obtain ok c' where r: "d32 (opcode ctx) (ctx\<lparr>pc_succ_insn := pc_next ctx + 4\<rparr>) = (ok, c')"
      by (cases "d32 (opcode ctx) (ctx\<lparr>pc_succ_insn := pc_next ctx + 4\<rparr>)")
    have "pc_succ_insn c' = pc_next ctx + 4"
      using k [rule_format, of "opcode ctx" "ctx\<lparr>pc_succ_insn := pc_next ctx + 4\<rparr>"] r by simp
    then show "pc_succ_insn (decode_opc d16 d32 ctx) = pc_next ctx + 4"
      using a h r by (simp add: p)
  qed
  have f: "extract32 (opcode ctx) 0 2 \<noteq> 3 \<and> riscv_has_ext (env ctx) RVC
            \<and> (\<forall>insn c. pc_succ_insn (snd (d16 insn c)) = pc_succ_insn c) \<longrightarrow>
            pc_succ_insn (decode_opc d16 d32 ctx) = pc_next ctx + 2"
  proof (intro impI, elim conjE)
    assume h: "extract32 (opcode ctx) 0 2 \<noteq> 3" "riscv_has_ext (env ctx) RVC"
      and k: "\<forall>insn c. pc_succ_insn (snd (d16 insn c)) = pc_succ_insn c"
    obtain ok c' where r: "d16 (ucast (opcode ctx)) (ctx\<lparr>pc_succ_insn := pc_next ctx + 2\<rparr>) = (ok, c')"
      by (cases "d16 (ucast (opcode ctx)) (ctx\<lparr>pc_succ_insn := pc_next ctx + 2\<rparr>)")
    have "pc_succ_insn c' = pc_next ctx + 2"
      using k [rule_format, of "ucast (opcode ctx)" "ctx\<lparr>pc_succ_insn := pc_next ctx + 2\<rparr>"] r
      by simp
    then show "pc_succ_insn (decode_opc d16 d32 ctx) = pc_next ctx + 2"
      using b h r by (simp add: p)
  qed
  from a b c d e f show ?thesis by blast
qed

theorem pc_succ_insn_before_translator_witness:
  "extract32 (opcode (ex_ctx 0x1000 {} 0x0080006F)) 0 2 = 3
   \<and> (1 :: int) \<noteq> 0
   \<and> (pc_next (ex_ctx 0x1000 {} 0x0080006F) + 8) AND 3 = 0
   \<and> hd (emitted (decode_opc decode_none (decode_jal False 1 8)) (ex_ctx 0x1000 {} 0x0080006F))
       = Op_movi (cpu_gpr 1) 0x1004
   \<and> pc_succ_insn (decode_opc decode_none decode_nop (ex_ctx 0x1000 {} 0x0080006F)) = 0x1004
   \<and> extract32 (opcode (ex_ctx 0x1000 {RVC} 0x0001)) 0 2 \<noteq> 3
   \<and> riscv_has_ext (env (ex_ctx 0x1000 {RVC} 0x0001)) RVC
   \<and> pc_succ_insn (decode_opc decode_nop decode_none (ex_ctx 0x1000 {RVC} 0x0001)) = 0x1002
   \<and> \<not> riscv_has_ext (env (ex_ctx 0x1000 {} 0x0001)) RVC
   \<and> decode_opc decode_nop decode_none (ex_ctx 0x1000 {} 0x0001)
       = gen_exception_illegal (ex_ctx 0x1000 {} 0x0001)"
proof -
  have a: "extract32 (opcode (ex_ctx 0x1000 {} 0x0080006F)) 0 2 = 3"
    by (simp add: ex_ctx_def extract32_def)
  have b: "(pc_next (ex_ctx 0x1000 {} 0x0080006F) + 8) AND 3 = 0"
    by (simp add: ex_ctx_def)
  have c: "extract32 (opcode (ex_ctx 0x1000 exts 0x0001)) 0 2 \<noteq> 3" for exts
    by (simp add: ex_ctx_def extract32_def)
  have d: "riscv_has_ext (env (ex_ctx 0x1000 {RVC} 0x0001)) RVC"
    "\<not> riscv_has_ext (env (ex_ctx 0x1000 {} 0x0001)) RVC"
    by (simp_all add: ex_ctx_def ex_env_def riscv_has_ext_def)
  have n: "\<forall>insn c. pc_succ_insn (snd (decode_nop insn c)) = pc_succ_insn c"
    by (simp add: decode_nop_def)
  have p: "pc_next (ex_ctx 0x1000 exts w) = 0x1000" for exts w
    by (simp add: ex_ctx_def)
  show ?thesis
    using pc_succ_insn_before_translator [of "ex_ctx 0x1000 {} 0x0080006F" decode_none
        "decode_nop" 1 8 False]
      pc_succ_insn_before_translator [of "ex_ctx 0x1000 {RVC} 0x0001" decode_nop decode_none]
      pc_succ_insn_before_translator [of "ex_ctx 0x1000 {} 0x0001" decode_nop decode_none]
      a b c d n
    by (simp add: p decode_nop_def)
qed

section \<open>ECALL and EBREAK\<close>

text \<open>
  C9. For ECALL (\<open>opc = OPC_RISC_ECALL\<close>, \<open>csr = 0\<close>) \<open>gen_system\<close> emits the write of
  \<open>pc_next\<close> to the guest PC (twice: its own and \<open>generate_exception\<close>'s), the raise of
  \<open>RISCV_EXCP_U_ECALL\<close> and an \<open>exit_tb\<close> with no block, and sets the exit reason to
  \<open>DISAS_NORETURN\<close>; there is no \<open>goto_tb\<close> among them. Running them raises
  \<open>RISCV_EXCP_U_ECALL\<close> with the guest PC at the instruction. EBREAK (\<open>csr = 1\<close>) is the
  same with \<open>RISCV_EXCP_BREAKPOINT\<close>.
\<close>

theorem ecall_ebreak:
  fixes ctx :: "'a::len word translation" and r :: "'a word tcg_state"
  shows "emitted (gen_system env' OPC_RISC_ECALL rd rs1 0) ctx
           = [Op_movi cpu_pc (pc_next ctx), Op_movi cpu_pc (pc_next ctx),
              Op_raise_exception RISCV_EXCP_U_ECALL, Op_exit_tb None 0]
       \<and> is_jmp (gen_system env' OPC_RISC_ECALL rd rs1 0 ctx) = DISAS_NORETURN
       \<and> exec_ops (emitted (gen_system env' OPC_RISC_ECALL rd rs1 0) ctx) r
           = Exception RISCV_EXCP_U_ECALL (r\<lparr>pc := pc_next ctx\<rparr>)
       \<and> Op_goto_tb n \<notin> set (emitted (gen_system env' OPC_RISC_ECALL rd rs1 0) ctx)
       \<and> emitted (gen_system env' OPC_RISC_ECALL rd rs1 1) ctx
           = [Op_movi cpu_pc (pc_next ctx), Op_movi cpu_pc (pc_next ctx),
              Op_raise_exception RISCV_EXCP_BREAKPOINT, Op_exit_tb None 0]
       \<and> is_jmp (gen_system env' OPC_RISC_ECALL rd rs1 1 ctx) = DISAS_NORETURN
       \<and> exec_ops (emitted (gen_system env' OPC_RISC_ECALL rd rs1 1) ctx) r
           = Exception RISCV_EXCP_BREAKPOINT (r\<lparr>pc := pc_next ctx\<rparr>)
       \<and> Op_goto_tb n \<notin> set (emitted (gen_system env' OPC_RISC_ECALL rd rs1 1) ctx)"
  by (simp add: gen_system_def exc_defs emitted_def emit_def Let_def and_then_def)

theorem ecall_ebreak_witness:
  "exec_ops (emitted (gen_system (ex_env {RVC}) OPC_RISC_ECALL 0 0 0) (ex_ctx 0x1008 {RVC} 0x00000073))
       (ex_state 0 0)
     = Exception RISCV_EXCP_U_ECALL ((ex_state 0 0)\<lparr>pc := 0x1008\<rparr>)
   \<and> exec_ops (emitted (gen_system (ex_env {RVC}) OPC_RISC_ECALL 0 0 1) (ex_ctx 0x1008 {RVC} 0x00100073))
       (ex_state 0 0)
     = Exception RISCV_EXCP_BREAKPOINT ((ex_state 0 0)\<lparr>pc := 0x1008\<rparr>)"
proof -
  have p: "pc_next (ex_ctx 0x1008 exts w) = 0x1008" for exts w
    by (simp add: ex_ctx_def)
  show ?thesis
    using ecall_ebreak [of "ex_env {RVC}" 0 0 "ex_ctx 0x1008 {RVC} 0x00000073" "ex_state 0 0" 0,
        unfolded p]
      ecall_ebreak [of "ex_env {RVC}" 0 0 "ex_ctx 0x1008 {RVC} 0x00100073" "ex_state 0 0" 0,
        unfolded p]
    by blast
qed

section \<open>Every exception flushes the PC first\<close>

text \<open>
  C10. On each path that raises a guest exception, the write of \<open>pc_next\<close> (the address
  of the instruction being translated) to the guest PC is emitted before the raise, so
  that running the emitted operations raises the exception with the guest PC at that
  address, and the exit reason is left at \<open>DISAS_NORETURN\<close>: the illegal instruction
  (\<open>gen_exception_illegal\<close>, reached from \<open>gen_system\<close> on an unknown sub-opcode and from
  \<open>decode_opc\<close> on a compressed opcode without RVC), the misaligned instruction address
  (\<open>gen_exception_inst_addr_mis\<close>, reached from \<open>gen_jal\<close>), the environment call and the
  breakpoint (\<open>gen_system\<close>), and the debugger's trap (\<open>riscv_tr_breakpoint_check\<close>).
\<close>

theorem exceptions_flush_pc:
  fixes ctx :: "'a::len word translation" and r :: "'a word tcg_state"
  shows "emitted gen_exception_illegal ctx
           = [Op_movi cpu_pc (pc_next ctx), Op_raise_exception RISCV_EXCP_ILLEGAL_INST]
       \<and> exec_ops (emitted gen_exception_illegal ctx) r
           = Exception RISCV_EXCP_ILLEGAL_INST (r\<lparr>pc := pc_next ctx\<rparr>)
       \<and> is_jmp (gen_exception_illegal ctx) = DISAS_NORETURN
       \<and> emitted gen_exception_inst_addr_mis ctx
           = [Op_movi cpu_pc (pc_next ctx), Op_st_badaddr cpu_pc,
              Op_raise_exception RISCV_EXCP_INST_ADDR_MIS]
       \<and> exec_ops (emitted gen_exception_inst_addr_mis ctx) r
           = Exception RISCV_EXCP_INST_ADDR_MIS (r\<lparr>pc := pc_next ctx, badaddr := pc_next ctx\<rparr>)
       \<and> is_jmp (gen_exception_inst_addr_mis ctx) = DISAS_NORETURN
       \<and> exec_ops (emitted (gen_system env' OPC_RISC_ECALL rd rs1 0) ctx) r
           = Exception RISCV_EXCP_U_ECALL (r\<lparr>pc := pc_next ctx\<rparr>)
       \<and> is_jmp (gen_system env' OPC_RISC_ECALL rd rs1 0 ctx) = DISAS_NORETURN
       \<and> exec_ops (emitted (gen_system env' OPC_RISC_ECALL rd rs1 1) ctx) r
           = Exception RISCV_EXCP_BREAKPOINT (r\<lparr>pc := pc_next ctx\<rparr>)
       \<and> is_jmp (gen_system env' OPC_RISC_ECALL rd rs1 1 ctx) = DISAS_NORETURN
       \<and> (csr \<noteq> 0 \<and> csr \<noteq> 1 \<longrightarrow>
            exec_ops (emitted (gen_system env' OPC_RISC_ECALL rd rs1 csr) ctx) r
              = Exception RISCV_EXCP_ILLEGAL_INST (r\<lparr>pc := pc_next ctx\<rparr>)
          \<and> is_jmp (gen_system env' OPC_RISC_ECALL rd rs1 csr ctx) = DISAS_NORETURN)
       \<and> emitted (\<lambda>c. snd (riscv_tr_breakpoint_check c)) ctx
           = [Op_movi cpu_pc (pc_next ctx), Op_raise_exception EXCP_DEBUG]
       \<and> exec_ops (emitted (\<lambda>c. snd (riscv_tr_breakpoint_check c)) ctx) r
           = Exception EXCP_DEBUG (r\<lparr>pc := pc_next ctx\<rparr>)
       \<and> is_jmp (snd (riscv_tr_breakpoint_check ctx)) = DISAS_NORETURN
       \<and> (\<not> riscv_has_ext env' RVC \<and> (pc_next ctx + imm) AND 3 \<noteq> 0 \<longrightarrow>
            exec_ops (emitted (gen_jal user_only env' rd imm) ctx) r
              = Exception RISCV_EXCP_INST_ADDR_MIS (r\<lparr>pc := pc_next ctx, badaddr := pc_next ctx\<rparr>)
          \<and> is_jmp (gen_jal user_only env' rd imm ctx) = DISAS_NORETURN)
       \<and> (extract32 (opcode ctx) 0 2 \<noteq> 3 \<and> \<not> riscv_has_ext (env ctx) RVC \<longrightarrow>
            exec_ops (emitted (decode_opc d16 d32) ctx) r
              = Exception RISCV_EXCP_ILLEGAL_INST (r\<lparr>pc := pc_next ctx\<rparr>)
          \<and> is_jmp (decode_opc d16 d32 ctx) = DISAS_NORETURN)"
  by (simp add: gen_system_def gen_jal_def decode_opc_def riscv_tr_breakpoint_check_def
      exc_defs emitted_def emit_def Let_def and_then_def with_val_def)

theorem exceptions_flush_pc_witness:
  "(5 :: int) \<noteq> 0 \<and> (5 :: int) \<noteq> 1
   \<and> exec_ops (emitted (gen_system (ex_env {}) OPC_RISC_ECALL 0 0 5) (ex_ctx 0x1008 {} 0x00500073))
        (ex_state 0 0)
       = Exception RISCV_EXCP_ILLEGAL_INST ((ex_state 0 0)\<lparr>pc := 0x1008\<rparr>)
   \<and> \<not> riscv_has_ext (ex_env {}) RVC
   \<and> ((0x1008 :: 64 word) + 2) AND 3 \<noteq> 0
   \<and> exec_ops (emitted (gen_jal False (ex_env {}) 1 2) (ex_ctx 0x1008 {} 0x0020006F)) (ex_state 0 0)
       = Exception RISCV_EXCP_INST_ADDR_MIS ((ex_state 0 0)\<lparr>pc := 0x1008, badaddr := 0x1008\<rparr>)
   \<and> extract32 (opcode (ex_ctx 0x1008 {} 0x0001)) 0 2 \<noteq> 3
   \<and> \<not> riscv_has_ext (env (ex_ctx 0x1008 {} 0x0001)) RVC
   \<and> exec_ops (emitted (decode_opc decode_nop decode_nop) (ex_ctx 0x1008 {} 0x0001)) (ex_state 0 0)
       = Exception RISCV_EXCP_ILLEGAL_INST ((ex_state 0 0)\<lparr>pc := 0x1008\<rparr>)
   \<and> exec_ops (emitted (\<lambda>c. snd (riscv_tr_breakpoint_check c)) (ex_ctx 0x1008 {} 0x0001)) (ex_state 0 0)
       = Exception EXCP_DEBUG ((ex_state 0 0)\<lparr>pc := 0x1008\<rparr>)"
proof -
  have h: "\<not> riscv_has_ext (ex_env {}) RVC" "\<not> riscv_has_ext (env (ex_ctx 0x1008 {} w)) RVC" for w
    by (simp_all add: riscv_has_ext_def ex_env_def ex_ctx_def)
  have m: "(pc_next (ex_ctx 0x1008 {} 0x0020006F) + 2) AND 3 \<noteq> 0"
    by (simp add: ex_ctx_def)
  have c: "extract32 (opcode (ex_ctx 0x1008 {} 0x0001)) 0 2 \<noteq> 3"
    by (simp add: ex_ctx_def extract32_def)
  have p: "pc_next (ex_ctx 0x1008 exts w) = 0x1008" for exts w
    by (simp add: ex_ctx_def)
  show ?thesis
    using exceptions_flush_pc [of "ex_ctx 0x1008 {} 0x00500073" "ex_state 0 0" "ex_env {}" 0 0 5
        0 False decode_nop decode_nop, unfolded p]
      exceptions_flush_pc [of "ex_ctx 0x1008 {} 0x0020006F" "ex_state 0 0" "ex_env {}" 1 0 0 2 False
        decode_nop decode_nop, unfolded p]
      exceptions_flush_pc [of "ex_ctx 0x1008 {} 0x0001" "ex_state 0 0" "ex_env {}" 0 0 0 0 False
        decode_nop decode_nop, unfolded p]
      h m [unfolded p] c
    by auto
qed

section \<open>A block stays within one page\<close>

text \<open>
  C7. The decoders are not in the file; they are asked only what \<open>decoder_sane\<close> says,
  and the page size must fit the register width (\<open>TARGET_PAGE_BITS\<close> below
  \<open>TARGET_LONG_BITS\<close>). Whenever the driver returns a block: it did not stop with the
  exit reason \<open>DISAS_NEXT\<close>; the block's instructions are the one at its start address
  followed by instructions that all lie in the page of the start address; and when the
  first instruction (of length 2 or 4 by its low two bits) ends beyond that page, the
  block has this one instruction only. For \<open>riscv_tr_translate_insn\<close> itself: if it
  leaves the exit reason at \<open>DISAS_NEXT\<close>, the next address is in the page of the first
  instruction, and if the translator left \<open>DISAS_NEXT\<close> and the next address is not in
  that page, the exit reason becomes \<open>DISAS_TOO_MANY\<close>.
\<close>

theorem block_within_page:
  fixes ctx :: "'a::len word translation"
  assumes "TARGET_PAGE_BITS < LENGTH('a)" and "decoder_sane d16" and "decoder_sane d32"
    and "translator_loop user_only d16 d32 cpu tb0 max_insns ctx = Inr ctx'"
  shows "is_jmp ctx' \<noteq> DISAS_NEXT
       \<and> (\<exists>xs. insn_starts (ops ctx') = insn_starts (ops ctx) @ tb_pc tb0 # xs
                \<and> (\<forall>a\<in>set xs. same_page a (tb_pc tb0)))
       \<and> (\<forall>w. cpu_ldl_code cpu (tb_pc tb0) = Some w
               \<and> \<not> same_page (tb_pc tb0 + (if extract32 w 0 2 \<noteq> 3 then 2 else 4)) (tb_pc tb0)
             \<longrightarrow> insn_starts (ops ctx') = insn_starts (ops ctx) @ [tb_pc tb0])
       \<and> (\<forall>c c'. riscv_tr_translate_insn d16 d32 cpu c = Inr c' \<and> is_jmp c' = DISAS_NEXT
             \<longrightarrow> same_page (pc_next c') (pc_first c'))
       \<and> (\<forall>c c' w. riscv_tr_translate_insn d16 d32 cpu c = Inr c'
               \<and> cpu_ldl_code cpu (pc_next c) = Some w
               \<and> is_jmp (decode_opc d16 d32 (c\<lparr>env := env_ptr cpu, opcode := w\<rparr>)) = DISAS_NEXT
               \<and> \<not> same_page (pc_next c') (pc_first c')
             \<longrightarrow> is_jmp c' = DISAS_TOO_MANY)"
proof -
  define c0 where "c0 = riscv_tr_tb_start (riscv_tr_init_disas_context
      (ctx\<lparr>tb := tb0, pc_first := tb_pc tb0, pc_next := tb_pc tb0, is_jmp := DISAS_NEXT,
            num_insns := 0, singlestep_enabled := cpu_singlestep_enabled cpu\<rparr>))"
  have z: "pc_first c0 = tb_pc tb0" "pc_next c0 = tb_pc tb0" "ops c0 = ops ctx"
    by (simp_all add: c0_def riscv_tr_tb_start_def riscv_tr_init_disas_context_def)
  obtain c1 where l: "translate_loop d16 d32 cpu (max_insns - 1) c0 = Inr c1"
    and t: "riscv_tr_tb_stop user_only c1 = Inr ctx'"
    using assms(4) by (auto simp add: translator_loop_def Let_def c0_def split: sum.splits)
  note f = translate_loop_facts [OF assms(1-3) l, unfolded z]
  note g = tb_stop_facts [OF t]
  have a: "is_jmp ctx' \<noteq> DISAS_NEXT" using g by simp
  have d: "\<forall>c c'. riscv_tr_translate_insn d16 d32 cpu c = Inr c' \<and> is_jmp c' = DISAS_NEXT
             \<longrightarrow> same_page (pc_next c') (pc_first c')"
  proof (intro allI impI, elim conjE)
    fix c c' :: "'a word translation"
    assume t: "riscv_tr_translate_insn d16 d32 cpu c = Inr c'" and n: "is_jmp c' = DISAS_NEXT"
    have "pc_first c' = pc_first c" by (rule translate_insn_facts(1) [OF assms(1-3) t])
    moreover have "same_page (pc_next c') (pc_first c)"
      by (rule translate_insn_facts(3) [OF assms(1-3) t n])
    ultimately show "same_page (pc_next c') (pc_first c')" by simp
  qed
  have e: "\<forall>c c' w. riscv_tr_translate_insn d16 d32 cpu c = Inr c'
               \<and> cpu_ldl_code cpu (pc_next c) = Some w
               \<and> is_jmp (decode_opc d16 d32 (c\<lparr>env := env_ptr cpu, opcode := w\<rparr>)) = DISAS_NEXT
               \<and> \<not> same_page (pc_next c') (pc_first c')
             \<longrightarrow> is_jmp c' = DISAS_TOO_MANY"
  proof (intro allI impI, elim conjE)
    fix c c' :: "'a word translation" and w
    assume t: "riscv_tr_translate_insn d16 d32 cpu c = Inr c'"
      and h: "cpu_ldl_code cpu (pc_next c) = Some w"
        "is_jmp (decode_opc d16 d32 (c\<lparr>env := env_ptr cpu, opcode := w\<rparr>)) = DISAS_NEXT"
      and q: "\<not> same_page (pc_next c') (pc_first c')"
    have "pc_first c' = pc_first c" by (rule translate_insn_facts(1) [OF assms(1-3) t])
    with q have "\<not> same_page (pc_next c') (pc_first c)" by simp
    then show "is_jmp c' = DISAS_TOO_MANY"
      by (rule translate_insn_facts(5) [OF assms(1-3) t h])
  qed
  have b: "\<exists>xs. insn_starts (ops ctx') = insn_starts (ops ctx) @ tb_pc tb0 # xs
                \<and> (\<forall>a\<in>set xs. same_page a (tb_pc tb0))"
    using f by (simp add: g(3))
  have s: "\<forall>w. cpu_ldl_code cpu (tb_pc tb0) = Some w
               \<and> \<not> same_page (tb_pc tb0 + (if extract32 w 0 2 \<noteq> 3 then 2 else 4)) (tb_pc tb0)
             \<longrightarrow> insn_starts (ops ctx') = insn_starts (ops ctx) @ [tb_pc tb0]"
    using f by (simp add: g(3))
  show ?thesis
    by (intro conjI) (rule a, rule b, rule s, rule d, rule e)
qed

theorem block_within_page_witness:
  "\<exists>c. translator_loop False decode_nop decode_nop ex_cpu \<lparr>tb_pc = 0x1FFC, tb_flags = 0\<rparr> 512
          (ex_ctx 0 {} 0) = Inr c
       \<and> is_jmp c \<noteq> DISAS_NEXT
       \<and> insn_starts (ops c) = [0x1FFC]"
proof -
  have l: "TARGET_PAGE_BITS < LENGTH(64)" by (simp add: TARGET_PAGE_BITS_def)
  have t: "\<forall>a. cpu_ldl_code ex_cpu a \<noteq> None" by (simp add: ex_cpu_def)
  obtain c where c: "translator_loop False decode_nop decode_nop ex_cpu
      \<lparr>tb_pc = 0x1FFC, tb_flags = 0\<rparr> 512 (ex_ctx 0 {} 0) = Inr c"
    using translator_loop_returns [OF t] by blast
  have f: "cpu_ldl_code ex_cpu 0x1FFC = Some 0x13" by (simp add: ex_cpu_def)
  have p: "\<not> same_page ((0x1FFC :: 64 word) + (if extract32 0x13 0 2 \<noteq> 3 then 2 else 4)) 0x1FFC"
    by (simp add: same_page_def extract32_def TARGET_PAGE_SIZE_def TARGET_PAGE_MASK_def
        TARGET_PAGE_BITS_def)
  have o: "insn_starts (ops (ex_ctx 0 {} 0)) = []" by (simp add: ex_ctx_def insn_starts_def)
  have b: "tb_pc \<lparr>tb_pc = 0x1FFC :: 64 word, tb_flags = 0\<rparr> = 0x1FFC" by simp
  note w = block_within_page [OF l decoder_sane_nop decoder_sane_nop c, unfolded b o]
  from w have "is_jmp c \<noteq> DISAS_NEXT" by blast
  moreover from w f p have "insn_starts (ops c) = [] @ [0x1FFC]" by blast
  ultimately show ?thesis using c by simp
qed

end
